theory Spec2Isabelle
  imports Main "HOL-Library.Word" "HOL-Library.FSet"
begin

unbundle bit_operations_syntax

section \<open>Tilar driver: mapping a tile to an archive and a slot inside it\<close>

text \<open>
  From \<^verbatim>\<open>vts/driver/tilardriver/options.hpp\<close>.  The C++ types: \<^verbatim>\<open>long\<close> is a
  64-bit two's complement integer, \<^verbatim>\<open>std::uint8_t\<close> an 8-bit unsigned one, \<^verbatim>\<open>int\<close> a
  32-bit signed one.  \<^verbatim>\<open>vts::Index\<close> and \<^verbatim>\<open>Tilar::FileIndex\<close> are declared in other
  headers; their coordinates are taken to be \<^verbatim>\<open>long\<close>, the type of the mask that is
  applied to them.
\<close>

type_synonym long = "64 word"
type_synonym uint8 = "8 word"
type_synonym cint = "32 word"
type_synonym Lod = "8 word"
type_synonym Alignment = "long \<times> long"

record Index =
  lod :: Lod
  x :: long
  y :: long

record FileIndex =
  col :: long
  row :: long
  type :: cint

record Options =
  baseTileSize :: long
  alignment :: Alignment
  binaryOrder :: uint8
  uuid :: "128 word"
  tileMask :: long

record OptionsIndex =
  archive :: Index
  fileIndex :: FileIndex

text \<open>
  \<^verbatim>\<open>Options::index\<close>.  The helper \<^verbatim>\<open>tileIndex(alignment, baseTileSize, tileId)\<close>
  (``index of tile from alignment'') is defined in \<^verbatim>\<open>tileop.hpp\<close>; it is a parameter
  of the model, as is the type of tile identifiers.

  On a signed operand \<^verbatim>\<open>>>\<close> is the arithmetic shift (\<open>signed_drop_bit\<close>).  The
  language defines it only for a shift count below the width of the promoted left
  operand, 64; \<^verbatim>\<open>binaryOrder\<close> is a \<^verbatim>\<open>std::uint8_t\<close> and may hold up to 255.  With a
  count of 64 or more the behaviour of the call is undefined: the model yields
  \<open>None\<close>.
\<close>

definition index ::
  "(Alignment \<Rightarrow> long \<Rightarrow> 'tileId \<Rightarrow> Index) \<Rightarrow> Options \<Rightarrow> 'tileId \<Rightarrow> cint
     \<Rightarrow> OptionsIndex option"
where
  "index tileIndex opts tileId ftype =
     (let i = tileIndex (alignment opts) (baseTileSize opts) tileId
      in if 64 \<le> unat (binaryOrder opts) then None
         else Some \<lparr> archive = \<lparr> lod = lod i
                              , x = signed_drop_bit (unat (binaryOrder opts)) (x i)
                              , y = signed_drop_bit (unat (binaryOrder opts)) (y i) \<rparr>
                   , fileIndex = \<lparr> col = x i AND tileMask opts
                                  , row = y i AND tileMask opts
                                  , type = ftype \<rparr> \<rparr>)"




section \<open>Delivery: the read-only view that synthesises streams\<close>

text \<open>
  From the delivery source (\<^verbatim>\<open>src/unnamed/part_002\<close>).  A tile is addressed by
  \<open>(lod, x, y)\<close>; the loop of \<^verbatim>\<open>creditsFromMetatiles\<close> computes with the coordinates
  as \<^verbatim>\<open>int\<close>, and nothing proved below depends on their width.
\<close>

record TileId =
  lod :: nat
  x :: int
  y :: int

text \<open>
  Every way a call can end other than by returning: the exceptions
  \<^verbatim>\<open>storage::NoSuchFile\<close>, \<^verbatim>\<open>storage::Error\<close> and a format error of a parser, and the
  dereference of an empty \<^verbatim>\<open>IStream::pointer\<close> (undefined behaviour in C++).
\<close>

datatype error = NoSuchFile | StorageError | FormatError | NullDereference

text \<open>
  The enumerations are declared in other files.  Of \<^verbatim>\<open>File\<close> the code
  names \<^verbatim>\<open>config\<close>; of \<^verbatim>\<open>TileFile\<close> it names \<^verbatim>\<open>mesh\<close>, \<^verbatim>\<open>meta\<close>, \<^verbatim>\<open>meta2d\<close>,
  \<^verbatim>\<open>mask\<close> and \<^verbatim>\<open>credits\<close>; of \<^verbatim>\<open>FileFlavor\<close> it names \<^verbatim>\<open>debug\<close>.  The other
  members follow the driver interface (tile index, registry; atlas, navtile).
\<close>

datatype File = File_config | File_tileIndex | File_registry

datatype TileFile =
  TileFile_meta | TileFile_mesh | TileFile_atlas | TileFile_navtile
  | TileFile_meta2d | TileFile_mask | TileFile_credits

datatype FileFlavor = regular | raw | debug

datatype ContentType = OfFile File | OfTileFile TileFile | Mime string

text \<open>
  An open \<^verbatim>\<open>IStream\<close>: what it delivers and its metadata.  \<^verbatim>\<open>IStream::pointer\<close> is a
  shared pointer and may be empty, so it is an \<open>IStream option\<close>; a call either
  throws (\<open>Inl\<close>) or returns such a pointer (\<open>Inr\<close>).
\<close>

record IStream =
  contentType :: ContentType
  body :: string
  name :: string
  stat_lastModified :: int

type_synonym result = "error + IStream option"

type_synonym IdSet = "nat fset"

record Credit =
  credit_id :: string
  numericId :: nat

record CreditTile =
  tile_credits :: "string fset"

text \<open>
  \<^verbatim>\<open>FullTileSetProperties\<close>: the code reads \<^verbatim>\<open>referenceFrame\<close> and \<^verbatim>\<open>credits\<close> and
  resets \<^verbatim>\<open>driverOptions\<close> (a \<^verbatim>\<open>boost::any\<close>, empty when \<open>None\<close>).  Its other
  fields are the extension part of the record.
\<close>

record FullTileSetProperties =
  referenceFrame :: string
  prop_credits :: IdSet
  driverOptions :: "string option"

text \<open>\<^verbatim>\<open>tileset::Index\<close>: the tile index proper, and which metatiles exist.\<close>

record tileset_Index =
  metaBinaryOrder :: nat
  tileIndex :: "TileId \<Rightarrow> 32 word"
  index_meta :: "TileId \<Rightarrow> bool"

text \<open>
  The driver, as far as delivery reads it: its root path, the files and tile files
  it holds, its time of last modification and the \<^verbatim>\<open>flattener\<close> capability.
\<close>

record Driver =
  root :: string
  fileStore :: "File \<rightharpoonup> IStream"
  tileStore :: "TileId \<Rightarrow> TileFile \<rightharpoonup> IStream"
  lastModified :: int
  flattener :: bool

text \<open>
  Modelled from the spec: \<^verbatim>\<open>Driver::input\<close>, whose implementations are missing from
  the sources.  A read that cannot locate its key fails with \<open>NoSuchFile\<close>, or
  returns the empty pointer when the caller passed \<^verbatim>\<open>NullWhenNotFound\<close>.
\<close>

definition Driver_input :: "Driver \<Rightarrow> File \<Rightarrow> result" where
  "Driver_input driver ftype =
     (case fileStore driver ftype of None \<Rightarrow> Inl NoSuchFile | Some s \<Rightarrow> Inr (Some s))"

text \<open>
  Modelled from the spec: \<^verbatim>\<open>Driver::input\<close> with \<^verbatim>\<open>NullWhenNotFound\<close>, missing from the
  sources as well.
\<close>

definition Driver_input_NullWhenNotFound :: "Driver \<Rightarrow> File \<Rightarrow> result" where
  "Driver_input_NullWhenNotFound driver ftype = Inr (fileStore driver ftype)"

text \<open>
  Modelled from the spec: \<^verbatim>\<open>Driver::input\<close> for a tile file, missing from the sources
  as well.
\<close>

definition Driver_input_tile :: "Driver \<Rightarrow> TileId \<Rightarrow> TileFile \<Rightarrow> result" where
  "Driver_input_tile driver tileId ftype =
     (case tileStore driver tileId ftype of None \<Rightarrow> Inl NoSuchFile | Some s \<Rightarrow> Inr (Some s))"

text \<open>
  Modelled from the spec: \<^verbatim>\<open>Driver::input\<close> for a tile file with \<^verbatim>\<open>NullWhenNotFound\<close>,
  missing from the sources as well.
\<close>

definition Driver_input_tile_NullWhenNotFound :: "Driver \<Rightarrow> TileId \<Rightarrow> TileFile \<Rightarrow> result" where
  "Driver_input_tile_NullWhenNotFound driver tileId ftype = Inr (tileStore driver tileId ftype)"

text \<open>
  What delivery calls and other files define: identifier predicates of the
  2D tiles, image generation and PNG encoding, the (de)serialisers and the credit
  registry.  They are parameters of the model; parsers may fail.
\<close>

record ('img, 'mm, 'dn, 'more) Externals =
  isMetaId :: "TileId \<Rightarrow> bool"
  isCreditId :: "TileId \<Rightarrow> bool"
  creditsId :: "TileId \<Rightarrow> TileId"
  CreditTile_binaryOrder :: nat
  meta2dImage :: "(TileId \<Rightarrow> 32 word) \<Rightarrow> TileId \<Rightarrow> 'img"
  emptyDebugMask :: "'img"
  loadMeshMask :: "IStream \<Rightarrow> error + 'mm"
  debugMask :: "'mm \<Rightarrow> bool \<Rightarrow> 'img"
  mask2d :: "'mm \<Rightarrow> bool \<Rightarrow> 'img"
  png_serialize :: "'img \<Rightarrow> nat \<Rightarrow> string"
  getNodeDebugInfo :: "(TileId \<Rightarrow> 32 word) \<Rightarrow> TileId \<Rightarrow> 'dn"
  saveDebug :: "'dn \<Rightarrow> string"
  loadCreditsFromMetaTile :: "string \<Rightarrow> string \<Rightarrow> error + IdSet"
  registry_credits :: "nat \<rightharpoonup> Credit"
  saveCreditTile :: "CreditTile \<Rightarrow> bool \<Rightarrow> string"
  loadConfig :: "string \<Rightarrow> string \<Rightarrow> error + 'more FullTileSetProperties_scheme"
  saveConfig :: "'more FullTileSetProperties_scheme \<Rightarrow> string"
  showTileId :: "TileId \<Rightarrow> string"
  showTileFile :: "TileFile \<Rightarrow> string"


text \<open>\<^verbatim>\<open>vs::memIStream\<close> wraps bytes held in memory into a stream.\<close>

definition memIStream :: "ContentType \<Rightarrow> string \<Rightarrow> int \<Rightarrow> string \<Rightarrow> IStream" where
  "memIStream ctype bytes lm nm =
     \<lparr> contentType = ctype, body = bytes, name = nm, stat_lastModified = lm \<rparr>"

text \<open>\<^verbatim>\<open>filename\<close>: the root path joined with \<^verbatim>\<open>"%s.%s" % tileId % type\<close>.\<close>

definition filename ::
  "('img, 'mm, 'dn, 'more, 'z) Externals_scheme \<Rightarrow> string \<Rightarrow> TileId \<Rightarrow> TileFile \<Rightarrow> string"
where
  "filename ext rt tileId ftype = rt @ ''/'' @ showTileId ext tileId @ ''.'' @ showTileFile ext ftype"

text \<open>\<^verbatim>\<open>meta2d\<close>: the 2D metatile, generated from the tile index.\<close>

definition meta2d ::
  "('img, 'mm, 'dn, 'more, 'z) Externals_scheme \<Rightarrow> Driver \<Rightarrow> tileset_Index \<Rightarrow> TileId \<Rightarrow> bool \<Rightarrow> result"
where
  "meta2d ext driver idx tileId noSuchFile =
     (if \<not> isMetaId ext tileId then
        (if noSuchFile then Inl NoSuchFile else Inr None)
      else
        Inr (Some (memIStream (OfTileFile TileFile_mask)
                     (png_serialize ext (meta2dImage ext (tileIndex idx) tileId) 9)
                     (lastModified driver)
                     (filename ext (root driver) tileId TileFile_meta2d))))"

text \<open>\<^verbatim>\<open>constants::EmptyMask\<close>.\<close>

definition EmptyMask :: "('img, 'mm, 'dn, 'more, 'z) Externals_scheme \<Rightarrow> string" where
  "EmptyMask ext = png_serialize ext (emptyDebugMask ext) 9"

text \<open>
  \<^verbatim>\<open>mask\<close> of the delivery source (the name \<open>mask\<close> is taken in HOL by the bit
  mask).
\<close>

definition mask_tile ::
  "('img, 'mm, 'dn, 'more, 'z) Externals_scheme \<Rightarrow> Driver \<Rightarrow> TileId \<Rightarrow> FileFlavor \<Rightarrow> bool \<Rightarrow> result"
where
  "mask_tile ext driver tileId flavor noSuchFile =
     (let dbg = (flavor = debug) in
      case (if noSuchFile \<and> \<not> dbg
            then Driver_input_tile driver tileId TileFile_mesh
            else Driver_input_tile_NullWhenNotFound driver tileId TileFile_mesh) of
        Inl e \<Rightarrow> Inl e
      | Inr None \<Rightarrow>
          (if dbg then
             Inr (Some (memIStream (OfTileFile TileFile_mask) (EmptyMask ext) (- 1)
                          (filename ext (root driver) tileId TileFile_mask)))
           else Inr None)
      | Inr (Some is) \<Rightarrow>
          (case loadMeshMask ext is of
             Inl e \<Rightarrow> Inl e
           | Inr meshMask \<Rightarrow>
               (let png = (if dbg
                           then png_serialize ext (debugMask ext meshMask (flattener driver)) 9
                           else png_serialize ext (mask2d ext meshMask (flattener driver)) 9)
                in Inr (Some (memIStream (OfTileFile TileFile_mask) png (stat_lastModified is)
                                (filename ext (root driver) tileId TileFile_mask))))))"

text \<open>\<^verbatim>\<open>meta\<close>: the stored metatile, or in debug flavor a generated debug node.\<close>

definition meta ::
  "('img, 'mm, 'dn, 'more, 'z) Externals_scheme \<Rightarrow> Driver \<Rightarrow> tileset_Index
     \<Rightarrow> 'more FullTileSetProperties_scheme \<Rightarrow> TileId \<Rightarrow> FileFlavor \<Rightarrow> bool \<Rightarrow> result"
where
  "meta ext driver idx properties tileId flavor noSuchFile =
     (if flavor \<noteq> debug then
        (if noSuchFile
         then Driver_input_tile driver tileId TileFile_meta
         else Driver_input_tile_NullWhenNotFound driver tileId TileFile_meta)
      else
        Inr (Some (memIStream (Mime ''application/json; charset=utf-8'')
                     (saveDebug ext (getNodeDebugInfo ext (tileIndex idx) tileId)) (- 1)
                     (filename ext (root driver) tileId TileFile_meta))))"

text \<open>
  \<^verbatim>\<open>creditsFromMetatiles\<close>.  The two nested loops visit the metatile identifiers
  row by row; \<open>metaIds\<close> lists them in that order.  \<open>1 << n\<close> is \<open>2 ^ n\<close> (the
  orders are small).
\<close>

definition metaIds :: "TileId \<Rightarrow> nat \<Rightarrow> int \<Rightarrow> TileId list" where
  "metaIds cid count skip =
     concat (map (\<lambda>j. map (\<lambda>i. \<lparr> lod = lod cid, x = x cid + int i * skip, y = y cid + int j * skip \<rparr>)
                          [0 ..< count])
                 [0 ..< count])"

text \<open>
  The body of the inner loop, run over the identifiers still to visit.  The
  reference parameters \<^verbatim>\<open>credits\<close> and \<^verbatim>\<open>lastModified\<close> are passed in and returned
  with the \<^verbatim>\<open>bool\<close>; \<^verbatim>\<open>return\<close> leaves both loops at once.
\<close>

fun creditsLoop ::
  "('img, 'mm, 'dn, 'more, 'z) Externals_scheme \<Rightarrow> Driver \<Rightarrow> tileset_Index \<Rightarrow> bool \<Rightarrow> nat
     \<Rightarrow> TileId list \<Rightarrow> IdSet \<Rightarrow> int \<Rightarrow> error + (bool \<times> IdSet \<times> int)"
where
  "creditsLoop ext driver idx noSuchFile maxCount [] credits lm = Inr (True, credits, lm)"
| "creditsLoop ext driver idx noSuchFile maxCount (metaId # rest) credits lm =
     (if \<not> index_meta idx metaId then
        creditsLoop ext driver idx noSuchFile maxCount rest credits lm
      else
        case (if noSuchFile
              then Driver_input_tile driver metaId TileFile_meta
              else Driver_input_tile_NullWhenNotFound driver metaId TileFile_meta) of
          Inl e \<Rightarrow> Inl e
        | Inr None \<Rightarrow> Inr (False, credits, lm)
        | Inr (Some is) \<Rightarrow>
            (case loadCreditsFromMetaTile ext (body is) (name is) of
               Inl e \<Rightarrow> Inl e
             | Inr loaded \<Rightarrow>
                 (let credits' = credits |\<union>| loaded;
                      lm' = (if stat_lastModified is > lm then stat_lastModified is else lm)
                  in if fcard credits' \<ge> maxCount then Inr (True, credits', lm')
                     else creditsLoop ext driver idx noSuchFile maxCount rest credits' lm')))"

definition creditsFromMetatiles ::
  "('img, 'mm, 'dn, 'more, 'z) Externals_scheme \<Rightarrow> Driver \<Rightarrow> tileset_Index \<Rightarrow> TileId \<Rightarrow> bool
     \<Rightarrow> IdSet \<Rightarrow> nat \<Rightarrow> int \<Rightarrow> error + (bool \<times> IdSet \<times> int)"
where
  "creditsFromMetatiles ext driver idx cid noSuchFile credits maxCount lm =
     (let metaOrder = metaBinaryOrder idx in
      if CreditTile_binaryOrder ext < metaOrder then Inl StorageError
      else
        (let depthDiff = CreditTile_binaryOrder ext - metaOrder;
             count = 2 ^ depthDiff;
             skip = 2 ^ metaOrder
         in creditsLoop ext driver idx noSuchFile maxCount (metaIds cid count skip) credits lm))"

text \<open>
  The closure \<^verbatim>\<open>extract\<close> of \<^verbatim>\<open>credits\<close> (\<open>extract\<close> is a keyword here): every
  credit the registry knows is entered into the tile under its string identifier.
\<close>

definition extract_credits ::
  "('img, 'mm, 'dn, 'more, 'z) Externals_scheme \<Rightarrow> IdSet \<Rightarrow> CreditTile \<Rightarrow> CreditTile"
where
  "extract_credits ext cs tile =
     tile \<lparr> tile_credits :=
       tile_credits tile |\<union>|
         (\<lambda>cid. credit_id (the (registry_credits ext cid))) |`|
            ffilter (\<lambda>cid. registry_credits ext cid \<noteq> None) cs \<rparr>"

definition credits ::
  "('img, 'mm, 'dn, 'more, 'z) Externals_scheme \<Rightarrow> Driver \<Rightarrow> tileset_Index
     \<Rightarrow> 'more FullTileSetProperties_scheme \<Rightarrow> TileId \<Rightarrow> bool \<Rightarrow> result"
where
  "credits ext driver idx properties tileId noSuchFile =
     (if \<not> isCreditId ext tileId then
        (if noSuchFile then Inl NoSuchFile else Inr None)
      else
        (let tile = \<lparr> tile_credits = {||} \<rparr>;
             serialized = (\<lambda>t lm.
               Inr (Some \<lparr> contentType = OfTileFile TileFile_credits
                         , body = saveCreditTile ext t False
                         , name = filename ext (root driver) tileId TileFile_credits
                         , stat_lastModified = lm \<rparr>))
         in if fcard (prop_credits properties) \<le> 1 then
              serialized (extract_credits ext (prop_credits properties) tile) (- 1)
            else
              (case creditsFromMetatiles ext driver idx (creditsId ext tileId) noSuchFile
                      {||} (fcard (prop_credits properties)) (- 1) of
                 Inl e \<Rightarrow> Inl e
               | Inr (ok, cs, lm) \<Rightarrow>
                   if \<not> ok then Inr None
                   else serialized (extract_credits ext cs tile)
                          (if lm \<le> 0 then lastModified driver else lm))))"

text \<open>
  \<^verbatim>\<open>filterConfig\<close>.  \<^verbatim>\<open>raw->get()\<close> dereferences the pointer it is given without
  a test.  The new stream is constructed from \<^verbatim>\<open>*raw\<close> and keeps its metadata.
\<close>

definition filterConfig ::
  "('img, 'mm, 'dn, 'more, 'z) Externals_scheme \<Rightarrow> IStream option \<Rightarrow> result"
where
  "filterConfig ext rawp =
     (case rawp of
        None \<Rightarrow> Inl NullDereference
      | Some rw \<Rightarrow>
          (case loadConfig ext (body rw) (name rw) of
             Inl e \<Rightarrow> Inl e
           | Inr props \<Rightarrow> Inr (Some (rw \<lparr> body := saveConfig ext (props \<lparr> driverOptions := None \<rparr>) \<rparr>))))"

text \<open>
  \<^verbatim>\<open>Delivery\<close> holds \<^verbatim>\<open>driver_\<close>, \<^verbatim>\<open>properties_\<close> and \<^verbatim>\<open>index_\<close> (a name cannot end
  with an underscore here).
\<close>

record 'more Delivery =
  delivery_driver :: Driver
  delivery_properties :: "'more FullTileSetProperties_scheme"
  delivery_index :: tileset_Index

text \<open>The four overloads of \<^verbatim>\<open>Delivery::input\<close> for files and tile files.\<close>

definition Delivery_input ::
  "('img, 'mm, 'dn, 'more, 'z) Externals_scheme \<Rightarrow> 'more Delivery \<Rightarrow> File \<Rightarrow> result"
where
  "Delivery_input ext d ftype =
     (case ftype of
        File_config \<Rightarrow>
          (case Driver_input (delivery_driver d) ftype of
             Inl e \<Rightarrow> Inl e
           | Inr rawp \<Rightarrow> filterConfig ext rawp)
      | _ \<Rightarrow> Driver_input (delivery_driver d) ftype)"

definition Delivery_input_NullWhenNotFound ::
  "('img, 'mm, 'dn, 'more, 'z) Externals_scheme \<Rightarrow> 'more Delivery \<Rightarrow> File \<Rightarrow> result"
where
  "Delivery_input_NullWhenNotFound ext d ftype =
     (case ftype of
        File_config \<Rightarrow>
          (case Driver_input_NullWhenNotFound (delivery_driver d) ftype of
             Inl e \<Rightarrow> Inl e
           | Inr rawp \<Rightarrow> filterConfig ext rawp)
      | _ \<Rightarrow> Driver_input_NullWhenNotFound (delivery_driver d) ftype)"

definition Delivery_input_tile ::
  "('img, 'mm, 'dn, 'more, 'z) Externals_scheme \<Rightarrow> 'more Delivery \<Rightarrow> TileId \<Rightarrow> TileFile
     \<Rightarrow> FileFlavor \<Rightarrow> result"
where
  "Delivery_input_tile ext d tileId ftype flavor =
     (case ftype of
        TileFile_meta2d \<Rightarrow> meta2d ext (delivery_driver d) (delivery_index d) tileId True
      | TileFile_mask \<Rightarrow> mask_tile ext (delivery_driver d) tileId flavor True
      | TileFile_credits \<Rightarrow> credits ext (delivery_driver d) (delivery_index d) (delivery_properties d) tileId True
      | TileFile_meta \<Rightarrow> meta ext (delivery_driver d) (delivery_index d) (delivery_properties d) tileId flavor True
      | _ \<Rightarrow> Driver_input_tile (delivery_driver d) tileId ftype)"

definition Delivery_input_tile_NullWhenNotFound ::
  "('img, 'mm, 'dn, 'more, 'z) Externals_scheme \<Rightarrow> 'more Delivery \<Rightarrow> TileId \<Rightarrow> TileFile
     \<Rightarrow> FileFlavor \<Rightarrow> result"
where
  "Delivery_input_tile_NullWhenNotFound ext d tileId ftype flavor =
     (case ftype of
        TileFile_meta2d \<Rightarrow> meta2d ext (delivery_driver d) (delivery_index d) tileId False
      | TileFile_mask \<Rightarrow> mask_tile ext (delivery_driver d) tileId flavor False
      | TileFile_credits \<Rightarrow> credits ext (delivery_driver d) (delivery_index d) (delivery_properties d) tileId False
      | TileFile_meta \<Rightarrow> meta ext (delivery_driver d) (delivery_index d) (delivery_properties d) tileId flavor False
      | _ \<Rightarrow> Driver_input_tile_NullWhenNotFound (delivery_driver d) tileId ftype)"


subsection \<open>The credit tile, as the specification words it\<close>




text \<open>
  The union of the credit sets of a list of metatiles, read in order and stopped
  as soon as the number of credits collected reaches \<open>n\<close>.  There is no union when
  a metatile that is read has no credit set.
\<close>

fun union_until :: "nat \<Rightarrow> IdSet option list \<Rightarrow> IdSet \<Rightarrow> IdSet option" where
  "union_until n [] acc = Some acc"
| "union_until n (None # ss) acc = None"
| "union_until n (Some s # ss) acc =
     (let acc' = acc |\<union>| s in if fcard acc' \<ge> n then Some acc' else union_until n ss acc')"

text \<open>
  The names on a credit tile for a set of credits: the registry identifiers of
  those credits that the registry knows.
\<close>

definition known_credit_names ::
  "('img, 'mm, 'dn, 'more, 'z) Externals_scheme \<Rightarrow> IdSet \<Rightarrow> string fset"
where
  "known_credit_names ext cs =
     (\<lambda>cid. credit_id (the (registry_credits ext cid)))
       |`| ffilter (\<lambda>cid. registry_credits ext cid \<noteq> None) cs"


subsection \<open>A small tile set for the examples\<close>

text \<open>
  Credit tiles cover 4 x 4 tiles and metatiles 2 x 2.  A metatile's body lists its
  credits, \<open>a\<close> for credit 1 and any other letter for credit 2; the registry knows
  the credits below 8.  A config starts with \<open>+\<close> when it carries driver options.
  An image is the list of the opacities of its pixels; its PNG is a signature
  followed by one character for each pixel, a dot for a transparent one.  The empty
  debug mask has four transparent pixels.
\<close>

definition example_ext :: "(nat list, nat, nat, unit) Externals" where
  "example_ext =
     \<lparr> isMetaId = (\<lambda>t. x t mod 8 = 0 \<and> y t mod 8 = 0)
     , isCreditId = (\<lambda>t. x t mod 4 = 0 \<and> y t mod 4 = 0)
     , creditsId = (\<lambda>t. t)
     , CreditTile_binaryOrder = 2
     , meta2dImage = (\<lambda>ti t. [255])
     , emptyDebugMask = [0, 0, 0, 0]
     , loadMeshMask = (\<lambda>s. Inr (length (body s)))
     , debugMask = (\<lambda>m f. replicate m 128)
     , mask2d = (\<lambda>m f. replicate m 255)
     , png_serialize = (\<lambda>img q. ''PNG'' @ map (\<lambda>a. if a = 0 then CHR ''.'' else CHR ''#'') img)
     , getNodeDebugInfo = (\<lambda>ti t. 0)
     , saveDebug = (\<lambda>n. ''{}'')
     , loadCreditsFromMetaTile =
         (\<lambda>b n. Inr (fset_of_list (map (\<lambda>c. if c = CHR ''a'' then 1 else 2) b)))
     , registry_credits =
         (\<lambda>n. if n < 8
              then Some \<lparr> credit_id = (if n = 1 then ''alpha'' else if n = 2 then ''beta'' else ''other'')
                        , numericId = n \<rparr>
              else None)
     , saveCreditTile =
         (\<lambda>t b. (if ''alpha'' |\<in>| tile_credits t then ''A'' else ''-'')
                  @ (if ''beta'' |\<in>| tile_credits t then ''B'' else ''-'')
                  @ (if ''other'' |\<in>| tile_credits t then ''O'' else ''-''))
     , loadConfig =
         (\<lambda>b n. if b = [] then Inl FormatError
                else Inr \<lparr> referenceFrame = tl b, prop_credits = {|1, 2|}
                         , driverOptions = (if hd b = CHR ''+'' then Some ''opts'' else None) \<rparr>)
     , saveConfig = (\<lambda>p. (if driverOptions p = None then ''-'' else ''+'') @ referenceFrame p)
     , showTileId = (\<lambda>t. ''t'')
     , showTileFile = (\<lambda>f. ''f'') \<rparr>"

definition example_config :: IStream where
  "example_config =
     \<lparr> contentType = OfFile File_config, body = ''+melown2015''
     , name = ''tileset.conf'', stat_lastModified = 100 \<rparr>"

definition example_metatile :: "string \<Rightarrow> int \<Rightarrow> IStream" where
  "example_metatile b lm =
     \<lparr> contentType = OfTileFile TileFile_meta, body = b, name = ''meta'', stat_lastModified = lm \<rparr>"

definition example_driver :: Driver where
  "example_driver =
     \<lparr> root = ''ts''
     , fileStore = [File_config \<mapsto> example_config]
     , tileStore = (\<lambda>t. if t = \<lparr> lod = 3, x = 0, y = 0 \<rparr> then [TileFile_meta \<mapsto> example_metatile ''a'' 7]
                         else if t = \<lparr> lod = 3, x = 2, y = 0 \<rparr> then [TileFile_meta \<mapsto> example_metatile ''b'' 9]
                         else if t = \<lparr> lod = 3, x = 2, y = 2 \<rparr> then [TileFile_meta \<mapsto> example_metatile ''ab'' 8]
                         else Map.empty)
     , lastModified = 50
     , flattener = False \<rparr>"

definition example_index :: tileset_Index where
  "example_index =
     \<lparr> metaBinaryOrder = 1
     , tileIndex = (\<lambda>t. 0)
     , index_meta = (\<lambda>t. t = \<lparr> lod = 3, x = 0, y = 0 \<rparr> \<or> t = \<lparr> lod = 3, x = 2, y = 0 \<rparr>
                          \<or> t = \<lparr> lod = 3, x = 2, y = 2 \<rparr>) \<rparr>"

definition example_properties :: FullTileSetProperties where
  "example_properties =
     \<lparr> referenceFrame = ''melown2015'', prop_credits = {|1, 2|}, driverOptions = Some ''opts'' \<rparr>"

definition example_delivery :: "unit Delivery" where
  "example_delivery =
     \<lparr> delivery_driver = example_driver, delivery_properties = example_properties
     , delivery_index = example_index \<rparr>"

section \<open>Reference frame nodes and node information\<close>

text \<open>
  From the node information header (\<^verbatim>\<open>src/unnamed/part_001\<close>).  An
  \<^verbatim>\<open>RFTreeSubtree\<close> holds a pointer to the root node of its subtree, and a
  \<^verbatim>\<open>NodeInfo\<close> a pointer to its reference frame.  Objects therefore live in a store,
  at addresses; two objects with equal contents at two addresses are two objects.
  \<^verbatim>\<open>RFNode\<close> and \<^verbatim>\<open>registry::ReferenceFrame\<close> are declared in other headers; a
  node carries the fields the code reads (\<^verbatim>\<open>id\<close>, \<^verbatim>\<open>srs\<close>, \<^verbatim>\<open>extents\<close>,
  and the flag behind \<^verbatim>\<open>valid()\<close>), a frame the address of its root node.
  Coordinates are of any linearly ordered type.
\<close>

type_synonym addr = nat

record 'a Extents2 =
  ll :: "'a \<times> 'a"
  ur :: "'a \<times> 'a"

record 'a RFNode =
  node_id :: TileId
  srs :: string
  extents :: "'a Extents2"
  valid_flag :: bool

record ReferenceFrame =
  frame_id :: string
  frame_root :: addr

record 'a Store =
  frames :: "addr \<rightharpoonup> ReferenceFrame"
  nodes :: "addr \<rightharpoonup> 'a RFNode"

text \<open>\<^verbatim>\<open>RFTreeSubtree\<close>: the field \<^verbatim>\<open>root_\<close>, and \<^verbatim>\<open>operator==\<close>.\<close>

record RFTreeSubtree =
  root_ptr :: addr

definition RFTreeSubtree_eq :: "RFTreeSubtree \<Rightarrow> RFTreeSubtree \<Rightarrow> bool" where
  "RFTreeSubtree_eq this other = (root_ptr this = root_ptr other)"

text \<open>
  \<^verbatim>\<open>NodeInfo\<close>: the fields \<^verbatim>\<open>referenceFrame_\<close>, \<^verbatim>\<open>subtree_\<close>, \<^verbatim>\<open>node_\<close> (a copy of the
  node, not a pointer) and \<^verbatim>\<open>partial_\<close>, with the accessors \<^verbatim>\<open>valid()\<close> and
  \<^verbatim>\<open>partial()\<close>.
\<close>

record 'a NodeInfo =
  referenceFrame_ptr :: addr
  subtree :: RFTreeSubtree
  node :: "'a RFNode"
  partial_flag :: bool

definition NodeInfo_valid :: "'a NodeInfo \<Rightarrow> bool" where
  "NodeInfo_valid ni = valid_flag (node ni)"

definition NodeInfo_partial :: "'a NodeInfo \<Rightarrow> bool" where
  "NodeInfo_partial ni = partial_flag ni"

text \<open>
  The public constructor \<^verbatim>\<open>NodeInfo(referenceFrame)\<close> of the root node information.
  The frame is passed by reference: \<open>fa\<close> is its address, \<^verbatim>\<open>referenceFrame.root()\<close>
  the root node inside it.  A reference always designates an object; an address
  the store does not hold gives \<open>None\<close>.
\<close>

definition NodeInfo_root :: "'a Store \<Rightarrow> addr \<Rightarrow> 'a NodeInfo option" where
  "NodeInfo_root st fa =
     (case frames st fa of
        None \<Rightarrow> None
      | Some rf \<Rightarrow>
          (case nodes st (frame_root rf) of
             None \<Rightarrow> None
           | Some n \<Rightarrow>
               Some \<lparr> referenceFrame_ptr = fa
                    , subtree = \<lparr> root_ptr = frame_root rf \<rparr>
                    , node = n
                    , partial_flag = False \<rparr>))"

text \<open>\<^verbatim>\<open>compatible\<close>.\<close>

definition compatible :: "'a NodeInfo \<Rightarrow> 'a NodeInfo \<Rightarrow> bool" where
  "compatible ni1 ni2 = RFTreeSubtree_eq (subtree ni1) (subtree ni2)"

subsection \<open>Validity of a node\<close>

text \<open>\<^verbatim>\<open>boost::tribool\<close>.\<close>

datatype tribool = tri_false | tri_true | indeterminate

text \<open>
  Extents are axis-aligned boxes, corners included.  Two boxes are separated when
  they are apart along an axis, and one contains the other when it does so along
  both.
\<close>

definition separated :: "('a::linorder) Extents2 \<Rightarrow> 'a Extents2 \<Rightarrow> bool" where
  "separated v e \<longleftrightarrow>
     fst (ur e) < fst (ll v) \<or> fst (ur v) < fst (ll e)
     \<or> snd (ur e) < snd (ll v) \<or> snd (ur v) < snd (ll e)"

definition contained :: "('a::linorder) Extents2 \<Rightarrow> 'a Extents2 \<Rightarrow> bool" where
  "contained v e \<longleftrightarrow>
     fst (ll v) \<le> fst (ll e) \<and> fst (ur e) \<le> fst (ur v)
     \<and> snd (ll v) \<le> snd (ll e) \<and> snd (ur e) \<le> snd (ur v)"

text \<open>
  Modelled from the spec: \<^verbatim>\<open>RFTreeSubtree::valid\<close>, of which the sources hold the
  declaration only.  Its documentation and the specification give the result:
  false for a node completely outside the subtree's valid area, true for a node
  completely inside, indeterminate for a node partially inside.
\<close>

definition RFTreeSubtree_valid :: "('a::linorder) Extents2 \<Rightarrow> 'a RFNode \<Rightarrow> tribool" where
  "RFTreeSubtree_valid validArea n =
     (if separated validArea (extents n) then tri_false
      else if contained validArea (extents n) then tri_true
      else indeterminate)"

text \<open>
  Modelled from the spec: the private constructor \<^verbatim>\<open>NodeInfo(referenceFrame, node)\<close>,
  which the header declares; its definition is missing from the sources.  The node information of a node
  other than the root records the validity of the node: ``node that is fully
  outside valid bounds is marked as invalid'', and ``partial node is partially
  inside valid bounds''.
\<close>

definition NodeInfo_node ::
  "addr \<Rightarrow> RFTreeSubtree \<Rightarrow> ('a::linorder) Extents2 \<Rightarrow> 'a RFNode \<Rightarrow> 'a NodeInfo"
where
  "NodeInfo_node fa st validArea n =
     (let v = RFTreeSubtree_valid validArea n
      in \<lparr> referenceFrame_ptr = fa
         , subtree = st
         , node = n \<lparr> valid_flag := (v \<noteq> tri_false) \<rparr>
         , partial_flag = (v = indeterminate) \<rparr>)"

text \<open>
  The geometry the specification speaks of, on the points of the boxes: a node is
  fully outside the valid bounds, fully inside them, or straddles their boundary.
\<close>

definition in_box :: "('a::linorder) Extents2 \<Rightarrow> 'a \<times> 'a \<Rightarrow> bool" where
  "in_box e p \<longleftrightarrow>
     fst (ll e) \<le> fst p \<and> fst p \<le> fst (ur e) \<and> snd (ll e) \<le> snd p \<and> snd p \<le> snd (ur e)"

definition proper_box :: "('a::linorder) Extents2 \<Rightarrow> bool" where
  "proper_box e \<longleftrightarrow> fst (ll e) \<le> fst (ur e) \<and> snd (ll e) \<le> snd (ur e)"

definition fully_outside :: "('a::linorder) Extents2 \<Rightarrow> 'a Extents2 \<Rightarrow> bool" where
  "fully_outside v e \<longleftrightarrow> (\<forall>p. in_box e p \<longrightarrow> \<not> in_box v p)"

definition fully_inside :: "('a::linorder) Extents2 \<Rightarrow> 'a Extents2 \<Rightarrow> bool" where
  "fully_inside v e \<longleftrightarrow> (\<forall>p. in_box e p \<longrightarrow> in_box v p)"

definition straddles :: "('a::linorder) Extents2 \<Rightarrow> 'a Extents2 \<Rightarrow> bool" where
  "straddles v e \<longleftrightarrow> (\<exists>p. in_box e p \<and> in_box v p) \<and> (\<exists>p. in_box e p \<and> \<not> in_box v p)"

subsection \<open>Two reference frames with equal contents\<close>

definition example_root :: "int RFNode" where
  "example_root =
     \<lparr> node_id = \<lparr> lod = 0, x = 0, y = 0 \<rparr>, srs = ''pseudomerc''
     , extents = \<lparr> ll = (- 100, - 100), ur = (100, 100) \<rparr>, valid_flag = True \<rparr>"

definition example_store :: "int Store" where
  "example_store =
     \<lparr> frames = [1 \<mapsto> \<lparr> frame_id = ''melown2015'', frame_root = 10 \<rparr>,
                 2 \<mapsto> \<lparr> frame_id = ''melown2015'', frame_root = 20 \<rparr>]
     , nodes = [10 \<mapsto> example_root, 20 \<mapsto> example_root] \<rparr>"

definition example_valid_area :: "int Extents2" where
  "example_valid_area = \<lparr> ll = (0, 0), ur = (10, 10) \<rparr>"

definition example_node :: "int \<Rightarrow> int \<Rightarrow> int RFNode" where
  "example_node px py =
     \<lparr> node_id = \<lparr> lod = 1, x = 0, y = 0 \<rparr>, srs = ''pseudomerc''
     , extents = \<lparr> ll = (px, py), ur = (px + 10, py + 10) \<rparr>, valid_flag = True \<rparr>"

section \<open>The encoder that converts an old tile set\<close>

text \<open>
  From \<^verbatim>\<open>vadstena/src/vts/vts02vts.cpp\<close>.
\<close>

subsection \<open>Heights\<close>

text \<open>
  A \<^verbatim>\<open>float\<close> is minus infinity, a finite value, plus infinity or not a number.
  The accumulator only compares heights, so the finite values are of any linearly
  ordered type.  \<open>float_less\<close> is \<^verbatim>\<open><\<close> on \<^verbatim>\<open>float\<close>: a comparison with NaN is
  false.
\<close>

datatype 'a float = NegInf | Finite 'a | PosInf | NaN

fun float_less :: "('a::linorder) float \<Rightarrow> 'a float \<Rightarrow> bool" where
  "float_less NaN b = False"
| "float_less a NaN = False"
| "float_less a NegInf = False"
| "float_less NegInf b = True"
| "float_less PosInf b = False"
| "float_less (Finite u) PosInf = True"
| "float_less (Finite u) (Finite w) = (u < w)"

text \<open>A raster (\<^verbatim>\<open>cv::Mat\<close> of \<^verbatim>\<open>float\<close>), read at \<open>(row, column)\<close>.\<close>

type_synonym 'a Mat = "int \<times> int \<Rightarrow> 'a float"

record 'a Mesh =
  vertices :: "('a \<times> 'a \<times> 'a) list"
  facets :: "(nat \<times> nat \<times> nat) list"

text \<open>
  What the encoder calls and other files define.  \<open>facePixels\<close> stands for
  the transformation of a face's vertices, \<^verbatim>\<open>imgproc::scanConvertTriangle\<close> and
  \<^verbatim>\<open>imgproc::processScanline\<close>: the pixels \<open>(x, y, z)\<close> of a face, in the order in
  which the operation is called on them, inside the raster.  \<open>makeTile\<close> stands for
  the construction of the output tile (atlas, \<^verbatim>\<open>createMesh\<close>, credits), which no
  claim made here looks into.  \<open>makeFull\<close> and \<open>makeComplete\<close> are the operations
  of the old tile index.
\<close>

record ('a, 't, 'tile) Encoder_env =
  mesh2grid :: "'a Extents2 \<Rightarrow> nat \<times> nat \<Rightarrow> 't"
  facePixels :: "'t \<Rightarrow> nat \<times> nat \<Rightarrow> 'a Mesh \<Rightarrow> nat \<times> nat \<times> nat \<Rightarrow> (int \<times> int \<times> 'a float) list"
  loadBinaryMesh :: "string \<Rightarrow> error + 'a Mesh"
  makeTile :: "TileId \<Rightarrow> 'a Mesh \<Rightarrow> IStream \<Rightarrow> 'a RFNode \<Rightarrow> error + 'tile"
  makeFull :: "TileId list \<Rightarrow> TileId list"
  makeComplete :: "TileId list \<Rightarrow> TileId list"

text \<open>\<^verbatim>\<open>rasterizeMesh\<close>: every face in turn, the operation on each of its pixels.\<close>

definition rasterizeMesh ::
  "('a, 't, 'tile, 'z) Encoder_env_scheme \<Rightarrow> 'a Mesh \<Rightarrow> 't \<Rightarrow> nat \<times> nat
     \<Rightarrow> (int \<Rightarrow> int \<Rightarrow> 'a float \<Rightarrow> 's \<Rightarrow> 's) \<Rightarrow> 's \<Rightarrow> 's"
where
  "rasterizeMesh ext mesh trafo rasterSize op s =
     fold (\<lambda>face s. fold (\<lambda>(px, py, pz) s. op px py pz s)
                          (facePixels ext trafo rasterSize mesh face) s)
          (facets mesh) s"

text \<open>
  Modelled from the spec: \<^verbatim>\<open>HeightMap::Accumulator\<close> (\<^verbatim>\<open>heightmap.hpp\<close> is missing
  from the sources).  It maps tiles to rasters of one fixed size.
\<close>

record 'a Accumulator =
  tileSize :: "nat \<times> nat"
  tiles :: "TileId \<rightharpoonup> 'a Mat"

text \<open>
  Modelled from the spec: \<^verbatim>\<open>HeightMap::Accumulator::tile\<close>, missing with the class.  It
  allocates the raster of a tile on first use, every pixel at the invalid value,
  plus infinity (``invalid heightmap value (i.e. initial value) is +oo'', the
  encoder says), and returns a reference to the raster.
\<close>

definition Accumulator_tile :: "'a Accumulator \<Rightarrow> TileId \<Rightarrow> 'a Accumulator \<times> 'a Mat" where
  "Accumulator_tile hma tileId =
     (case tiles hma tileId of
        Some hm \<Rightarrow> (hma, hm)
      | None \<Rightarrow> (hma \<lparr> tiles := (tiles hma) (tileId \<mapsto> (\<lambda>p. PosInf)) \<rparr>, (\<lambda>p. PosInf)))"

text \<open>
  \<^verbatim>\<open>Encoder::generateHeightMap\<close>.  \<open>hm\<close> is a reference into the accumulator: what
  the rasterisation writes is written to the accumulator's tile.
\<close>

definition generateHeightMap ::
  "('a::linorder, 't, 'tile, 'z) Encoder_env_scheme \<Rightarrow> 'a Accumulator \<Rightarrow> TileId \<Rightarrow> 'a Mesh
     \<Rightarrow> 'a Extents2 \<Rightarrow> 'a Accumulator"
where
  "generateHeightMap ext hma tileId mesh ex =
     (case Accumulator_tile hma tileId of
        (hma', hm) \<Rightarrow>
          hma' \<lparr> tiles := (tiles hma') (tileId \<mapsto>
            rasterizeMesh ext mesh (mesh2grid ext ex (tileSize hma')) (tileSize hma')
              (\<lambda>px py pz hm. if float_less pz (hm (py, px)) then hm ((py, px) := pz) else hm)
              hm) \<rparr>)"

text \<open>
  The specification's side: the minimum of a value and a list of heights, and the
  heights that a mesh puts on a pixel.
\<close>

fun least_height :: "('a::linorder) float \<Rightarrow> 'a float list \<Rightarrow> 'a float" where
  "least_height v [] = v"
| "least_height v (z # zs) = least_height (if float_less z v then z else v) zs"

definition heights_on ::
  "('a, 't, 'tile, 'z) Encoder_env_scheme \<Rightarrow> nat \<times> nat \<Rightarrow> 'a Mesh \<times> 'a Extents2 \<Rightarrow> int \<times> int
     \<Rightarrow> 'a float list"
where
  "heights_on ext rasterSize me p =
     map (\<lambda>(px, py, pz). pz)
       (filter (\<lambda>(px, py, pz). (py, px) = p)
          (concat (map (facePixels ext (mesh2grid ext (snd me) rasterSize) rasterSize (fst me))
                       (facets (fst me)))))"

text \<open>A pixel as read through \<^verbatim>\<open>tile(id)\<close>.\<close>

definition pixel :: "'a Accumulator \<Rightarrow> TileId \<Rightarrow> int \<times> int \<Rightarrow> 'a float" where
  "pixel hma tileId p = snd (Accumulator_tile hma tileId) p"

subsection \<open>Generating a tile\<close>



text \<open>
  The encoder: the input's tile index \<^verbatim>\<open>ti_\<close>, its completed copy \<^verbatim>\<open>cti_\<close>, the
  files of the input, the level the height map is taken from and the largest
  level of the constraints.
\<close>

record Encoder =
  ti :: "TileId list"
  cti :: "TileId list"
  input_files :: "TileId \<Rightarrow> TileFile \<rightharpoonup> IStream"
  ntSourceLod :: nat
  lodMax :: nat



subsection \<open>The traversal\<close>

text \<open>
  Modelled from the spec: the children of a tile (\<^verbatim>\<open>children\<close> of \<^verbatim>\<open>tileop.hpp\<close>,
  missing from the sources): those of \<open>(l, x, y)\<close> are \<open>(l + 1, 2x + dx, 2y + dy)\<close>,
  in the order lower left, lower right, upper left, upper right.
\<close>

definition children :: "TileId \<Rightarrow> TileId list" where
  "children t =
     [ \<lparr> lod = Suc (lod t), x = 2 * x t, y = 2 * y t \<rparr>
     , \<lparr> lod = Suc (lod t), x = 2 * x t + 1, y = 2 * y t \<rparr>
     , \<lparr> lod = Suc (lod t), x = 2 * x t, y = 2 * y t + 1 \<rparr>
     , \<lparr> lod = Suc (lod t), x = 2 * x t + 1, y = 2 * y t + 1 \<rparr> ]"

text \<open>Modelled from the spec: the parent of a tile, \<open>(l - 1, x >> 1, y >> 1)\<close>.\<close>

definition parent :: "TileId \<Rightarrow> TileId" where
  "parent t = \<lparr> lod = lod t - 1, x = x t div 2, y = y t div 2 \<rparr>"


text \<open>
  A tile \<open>d\<close> lies in the subtree of a tile \<open>t\<close>, and an index holds a tile in the
  subtree of \<open>t\<close>.
\<close>

definition below :: "TileId \<Rightarrow> TileId \<Rightarrow> bool" where
  "below t d \<longleftrightarrow>
     lod t \<le> lod d \<and> x d div 2 ^ (lod d - lod t) = x t \<and> y d div 2 ^ (lod d - lod t) = y t"


text \<open>Rasterising a sequence of meshes, each with its extents, into one tile.\<close>

definition generateHeightMaps ::
  "('a::linorder, 't, 'tile, 'z) Encoder_env_scheme \<Rightarrow> 'a Accumulator \<Rightarrow> TileId
     \<Rightarrow> ('a Mesh \<times> 'a Extents2) list \<Rightarrow> 'a Accumulator"
where
  "generateHeightMaps ext hma tileId meshes =
     fold (\<lambda>(mesh, ex) h. generateHeightMap ext h tileId mesh ex) meshes hma"


subsection \<open>A small input for the examples\<close>

text \<open>
  In the example a face \<open>(a, b, c)\<close> of a mesh covers the one pixel in column \<open>a\<close>
  and row \<open>b\<close> with the height \<open>c\<close>; the old tile set holds the tiles \<open>(2, 0, 0)\<close>
  and \<open>(2, 3, 3)\<close>.  Of the operations on its index, \<open>makeFull\<close> adds the three
  siblings of every tile, so that a tile is in the index with its whole quad, and
  \<open>makeComplete\<close> adds the ancestors of every tile.
\<close>

definition ancestors :: "TileId \<Rightarrow> TileId list" where
  "ancestors t =
     map (\<lambda>k. \<lparr> lod = lod t - k, x = x t div 2 ^ k, y = y t div 2 ^ k \<rparr>) [0 ..< Suc (lod t)]"

definition quad :: "TileId \<Rightarrow> TileId list" where
  "quad t = (if lod t = 0 then [t] else children (parent t))"

definition example_encoder_env :: "(int, unit, string) Encoder_env" where
  "example_encoder_env =
     \<lparr> mesh2grid = (\<lambda>e s. ())
     , facePixels = (\<lambda>t s m (a, b, c). [(int a, int b, Finite (int c))])
     , loadBinaryMesh = (\<lambda>b. Inr \<lparr> vertices = [], facets = [(1, 1, length b)] \<rparr>)
     , makeTile = (\<lambda>t m a n. Inr (body a))
     , makeFull = (\<lambda>tix. concat (map quad tix))
     , makeComplete = (\<lambda>tix. concat (map ancestors tix)) \<rparr>"

definition example_mesh :: "int Mesh" where
  "example_mesh = \<lparr> vertices = [], facets = [(1, 1, 5), (1, 1, 3), (2, 2, 7)] \<rparr>"

definition example_hma :: "int Accumulator" where
  "example_hma = \<lparr> tileSize = (4, 4), tiles = Map.empty \<rparr>"




section \<open>Pasting tile sets\<close>

text \<open>
  The sources declare \<^verbatim>\<open>pasteTileSets\<close> and the operations of \<^verbatim>\<open>TileSet\<close>, and
  document the former (``last tile wins''); they do not hold the definitions.

  A tile set, as far as pasting reads and writes it: the tiles it holds, each
  with its payload, in the order in which its tile index is iterated.
\<close>

type_synonym 'p TileSet = "(TileId \<times> 'p) list"

text \<open>
  Modelled from the spec: reading a tile of a \<^verbatim>\<open>TileSet\<close> (\<^verbatim>\<open>getMesh\<close>, \<^verbatim>\<open>getAtlas\<close>
  and the like, which the header declares), missing from the sources.
\<close>

definition TileSet_get :: "'p TileSet \<Rightarrow> TileId \<rightharpoonup> 'p" where
  "TileSet_get ts tileId = map_of ts tileId"

text \<open>Modelled from the spec: \<^verbatim>\<open>TileSet::exists\<close>, missing from the sources.\<close>

definition TileSet_exists :: "'p TileSet \<Rightarrow> TileId \<Rightarrow> bool" where
  "TileSet_exists ts tileId \<longleftrightarrow> TileSet_get ts tileId \<noteq> None"

text \<open>
  Modelled from the spec: \<^verbatim>\<open>TileSet::setTile\<close>, missing from the sources.  The tile
  replaces the one stored under the identifier.
\<close>

definition TileSet_setTile :: "'p TileSet \<Rightarrow> TileId \<Rightarrow> 'p \<Rightarrow> 'p TileSet" where
  "TileSet_setTile ts tileId tile = (tileId, tile) # filter (\<lambda>(k, v). k \<noteq> tileId) ts"

text \<open>
  Modelled from the spec: \<^verbatim>\<open>TileSet::paste\<close>, which is missing from the sources.
  It iterates the tile index of the source, within the range of levels when one
  is given, and copies the payload of every tile into the destination, over
  whatever the destination holds there.
\<close>

definition TileSet_paste :: "'p TileSet \<Rightarrow> 'p TileSet \<Rightarrow> (nat \<times> nat) option \<Rightarrow> 'p TileSet" where
  "TileSet_paste dst src lodRange =
     fold (\<lambda>tileId d. case TileSet_get src tileId of
                         None \<Rightarrow> d
                       | Some tile \<Rightarrow> TileSet_setTile d tileId tile)
          (filter (\<lambda>tileId. case lodRange of
                                None \<Rightarrow> True
                              | Some (lo, hi) \<Rightarrow> lo \<le> lod tileId \<and> lod tileId \<le> hi)
                  (map fst src))
          dst"

text \<open>
  Modelled from the spec: \<^verbatim>\<open>pasteTileSets\<close>, which is missing from the sources.
  It pastes the source tile sets into the destination one after the other, in the
  order given.  It returns nothing and reports nothing about a tile that two
  sources hold.
\<close>

definition pasteTileSets :: "'p TileSet \<Rightarrow> 'p TileSet list \<Rightarrow> 'p TileSet" where
  "pasteTileSets dst src = fold (\<lambda>s d. TileSet_paste d s None) src dst"

definition example_tileset_A :: "string TileSet" where
  "example_tileset_A = [(\<lparr> lod = 3, x = 2, y = 1 \<rparr>, ''A-321''), (\<lparr> lod = 3, x = 4, y = 4 \<rparr>, ''A-344'')]"

definition example_tileset_B :: "string TileSet" where
  "example_tileset_B = [(\<lparr> lod = 3, x = 4, y = 4 \<rparr>, ''B-344''), (\<lparr> lod = 4, x = 0, y = 0 \<rparr>, ''B-400'')]"

definition example_tileset_dst :: "string TileSet" where
  "example_tileset_dst = [(\<lparr> lod = 3, x = 2, y = 1 \<rparr>, ''old-321'')]"

section \<open>Properties of the tilar driver's index map\<close>

lemma tileMask_is_mask: "push_bit n (1 :: long) - 1 = mask n"
  by (simp add: mask_eq_exp_minus_1 push_bit_eq_mult)

text \<open>
  What the two halves of the map mean as numbers: the archive coordinate is the
  quotient and the slot the remainder of the division by \<open>2 ^ binaryOrder\<close>, and
  the two together give the coordinate back.
\<close>

lemma archive_coordinate_div: "sint (signed_drop_bit n (w :: long)) = sint w div 2 ^ n"
  by (simp add: sint_signed_drop_bit_eq drop_bit_eq_div)

lemma slot_coordinate_mod:
  assumes "n < 64"
  shows "sint ((w :: long) AND (push_bit n 1 - 1)) = sint w mod 2 ^ n"
proof -
  have "w AND (push_bit n 1 - 1) = take_bit n w"
    unfolding tileMask_is_mask by (simp only: take_bit_eq_mask)
  moreover have "sint (take_bit n w) = take_bit n (sint w)"
    using assms by (simp only: signed_take_bit_eq) simp
  ultimately show ?thesis
    by (simp only: take_bit_eq_mod)
qed

lemma push_signed_drop_bit:
  "n < 64 \<Longrightarrow> push_bit n (signed_drop_bit n (w :: long)) = push_bit n (drop_bit n w)"
  by (rule bit_eqI) (auto simp add: bit_push_bit_iff bit_signed_drop_bit_iff bit_drop_bit_eq)

lemma archive_and_slot_give_coordinate:
  "n < 64 \<Longrightarrow> push_bit n (signed_drop_bit n (w :: long)) + (w AND (push_bit n 1 - 1)) = w"
  unfolding tileMask_is_mask
  by (simp add: push_signed_drop_bit bits_ident flip: take_bit_eq_mask)

text \<open>A shift count of 64 or more leaves the behaviour of the call undefined.\<close>

lemma index_undefined_shift:
  "64 \<le> unat (binaryOrder opts) \<Longrightarrow> index tileIndexFn opts tileId t = None"
  by (simp add: index_def)

text \<open>
  When \<^verbatim>\<open>tileIndex\<close> (here \<open>tileIndexFn\<close>) yields the coordinates \<open>(l, tx, ty)\<close> for a
  tile, the archive and the slot are computed from these.
\<close>

lemma index_of_tile_index:
  assumes "tileIndexFn (alignment opts) (baseTileSize opts) tileId
             = \<lparr> Index.lod = l, Index.x = tx, Index.y = ty \<rparr>"
    and "unat (binaryOrder opts) < 64"
  shows "index tileIndexFn opts tileId t = Some
     \<lparr> archive = \<lparr> Index.lod = l
                  , Index.x = signed_drop_bit (unat (binaryOrder opts)) tx
                  , Index.y = signed_drop_bit (unat (binaryOrder opts)) ty \<rparr>
     , fileIndex = \<lparr> col = tx AND tileMask opts, row = ty AND tileMask opts, type = t \<rparr> \<rparr>"
  using assms by (simp add: index_def)




section \<open>Properties of delivery\<close>

subsection \<open>Credits\<close>











text \<open>
  What the union with early exit is: it lies between the start and the union of
  all the credit sets, it is that union when every metatile has a credit set and
  the bound is never reached, and otherwise it has reached the bound.
\<close>

lemma union_until_bounds:
  "union_until n ss acc = Some r
     \<Longrightarrow> acc |\<subseteq>| r \<and> r |\<subseteq>| acc |\<union>| ffUnion (fset_of_list (map the ss))"
proof (induction n ss acc rule: union_until.induct)
  case (1 n acc)
  then show ?case by simp
next
  case (2 n ss acc)
  then show ?case by simp
next
  case (3 n s ss acc)
  show ?case
  proof (cases "n \<le> fcard (acc |\<union>| s)")
    case True
    with "3.prems" show ?thesis by (auto simp add: Let_def)
  next
    case False
    with "3.prems" have "union_until n ss (acc |\<union>| s) = Some r"
      by (simp add: Let_def)
    from "3.IH" [OF refl False this] show ?thesis
      by auto
  qed
qed

lemma union_until_complete:
  "list_all (\<lambda>s. s \<noteq> None) ss
     \<Longrightarrow> fcard (acc |\<union>| ffUnion (fset_of_list (map the ss))) < n
     \<Longrightarrow> union_until n ss acc = Some (acc |\<union>| ffUnion (fset_of_list (map the ss)))"
proof (induction ss arbitrary: acc)
  case Nil
  then show ?case by simp
next
  case (Cons s0 ss)
  from Cons.prems(1) obtain s where s0: "s0 = Some s"
    by auto
  have "fcard (acc |\<union>| s) \<le> fcard (acc |\<union>| ffUnion (fset_of_list (map the (s0 # ss))))"
    unfolding s0 by (rule fcard_mono) auto
  with Cons.prems(2) have "\<not> n \<le> fcard (acc |\<union>| s)"
    by simp
  moreover from Cons.prems(2) have "fcard ((acc |\<union>| s) |\<union>| ffUnion (fset_of_list (map the ss))) < n"
    by (simp add: s0 funion_assoc)
  moreover from Cons.prems(1) have "list_all (\<lambda>s. s \<noteq> None) ss"
    by simp
  ultimately show ?case
    using Cons.IH [of "acc |\<union>| s"] by (simp add: s0 Let_def funion_assoc)
qed

lemma union_until_reached:
  "union_until n ss acc = Some r
     \<Longrightarrow> n \<le> fcard r
       \<or> (list_all (\<lambda>s. s \<noteq> None) ss \<and> r = acc |\<union>| ffUnion (fset_of_list (map the ss)))"
proof (induction n ss acc rule: union_until.induct)
  case (1 n acc)
  then show ?case by simp
next
  case (2 n ss acc)
  then show ?case by simp
next
  case (3 n s ss acc)
  show ?case
  proof (cases "n \<le> fcard (acc |\<union>| s)")
    case True
    with "3.prems" show ?thesis by (auto simp add: Let_def)
  next
    case False
    with "3.prems" have "union_until n ss (acc |\<union>| s) = Some r"
      by (simp add: Let_def)
    from "3.IH" [OF refl False this] show ?thesis
      by (auto simp add: funion_assoc)
  qed
qed

text \<open>
  The names on the tile are the registry identifiers of the known credits; when
  the registry knows every credit of the set, the tile names them all.
\<close>

lemma known_credit_names_iff:
  "nm |\<in>| known_credit_names ext cs
     \<longleftrightarrow> (\<exists>cid c. cid |\<in>| cs \<and> registry_credits ext cid = Some c \<and> nm = credit_id c)"
  by (force simp add: known_credit_names_def image_iff)








subsection \<open>Reads that cannot locate their key\<close>

text \<open>
  Apart from the config read with \<^verbatim>\<open>NullWhenNotFound\<close>, a read that cannot locate
  its key fails with \<open>NoSuchFile\<close>, or returns the empty pointer when the caller
  passed \<^verbatim>\<open>NullWhenNotFound\<close>: files, stored tile files, and the 2D metatiles and
  credit tiles with an identifier that is not valid for them.
\<close>

lemma file_not_found:
  assumes "fileStore (delivery_driver d) ftype = None"
  shows "Delivery_input ext d ftype = Inl NoSuchFile"
    and "ftype \<noteq> File_config \<Longrightarrow> Delivery_input_NullWhenNotFound ext d ftype = Inr None"
  using assms
  by (cases ftype; simp add: Delivery_input_def Delivery_input_NullWhenNotFound_def
        Driver_input_def Driver_input_NullWhenNotFound_def)+

lemma tile_file_not_found:
  assumes "tileStore (delivery_driver d) tileId ftype = None"
    and "ftype \<in> {TileFile_mesh, TileFile_atlas, TileFile_navtile}"
  shows "Delivery_input_tile ext d tileId ftype flavor = Inl NoSuchFile"
    and "Delivery_input_tile_NullWhenNotFound ext d tileId ftype flavor = Inr None"
  using assms
  by (auto simp add: Delivery_input_tile_def Delivery_input_tile_NullWhenNotFound_def
        Driver_input_tile_def Driver_input_tile_NullWhenNotFound_def)

lemma meta2d_invalid_id:
  assumes "\<not> isMetaId ext tileId"
  shows "Delivery_input_tile ext d tileId TileFile_meta2d flavor = Inl NoSuchFile"
    and "Delivery_input_tile_NullWhenNotFound ext d tileId TileFile_meta2d flavor = Inr None"
  using assms
  by (simp_all add: Delivery_input_tile_def Delivery_input_tile_NullWhenNotFound_def meta2d_def)

lemma credits_invalid_id:
  assumes "\<not> isCreditId ext tileId"
  shows "Delivery_input_tile ext d tileId TileFile_credits flavor = Inl NoSuchFile"
    and "Delivery_input_tile_NullWhenNotFound ext d tileId TileFile_credits flavor = Inr None"
  using assms
  by (simp_all add: Delivery_input_tile_def Delivery_input_tile_NullWhenNotFound_def credits_def)

text \<open>
  Claim C5, at the config key.  When the driver cannot locate the config and the
  caller passed \<^verbatim>\<open>NullWhenNotFound\<close>, \<^verbatim>\<open>Delivery::input\<close> hands the driver's empty
  pointer to \<^verbatim>\<open>filterConfig\<close>, which dereferences it: the read does not return an
  empty stream.
\<close>

theorem config_null_dereference:
  "Delivery_input_NullWhenNotFound ext
     (d \<lparr> delivery_driver := (delivery_driver d)
            \<lparr> fileStore := (fileStore (delivery_driver d)) (File_config := None) \<rparr> \<rparr>)
     File_config
   = Inl NullDereference"
  by (simp add: Delivery_input_NullWhenNotFound_def Driver_input_NullWhenNotFound_def
      filterConfig_def)

subsection \<open>Masks\<close>

text \<open>
  Claim C6.  For a tile with no stored mesh, the mask read in debug flavor returns
  a stream of mask content whose bytes are the PNG of the empty debug mask
  (\<^verbatim>\<open>imgproc::png::serialize(emptyDebugMask(), 9)\<close>), whether or not the caller passed
  \<^verbatim>\<open>NullWhenNotFound\<close>.  In any other flavor the same read fails with \<open>NoSuchFile\<close>,
  or returns the empty pointer when the caller passed \<^verbatim>\<open>NullWhenNotFound\<close>.
\<close>

theorem mask_debug_placeholder:
  assumes "tileStore (delivery_driver d) tileId TileFile_mesh = None"
  shows "Delivery_input_tile ext d tileId TileFile_mask debug
           = Inr (Some \<lparr> contentType = OfTileFile TileFile_mask
                       , body = png_serialize ext (emptyDebugMask ext) 9
                       , name = filename ext (root (delivery_driver d)) tileId TileFile_mask
                       , stat_lastModified = - 1 \<rparr>)
       \<and> Delivery_input_tile_NullWhenNotFound ext d tileId TileFile_mask debug
           = Inr (Some \<lparr> contentType = OfTileFile TileFile_mask
                       , body = png_serialize ext (emptyDebugMask ext) 9
                       , name = filename ext (root (delivery_driver d)) tileId TileFile_mask
                       , stat_lastModified = - 1 \<rparr>)
       \<and> (flavor \<noteq> debug \<longrightarrow>
              Delivery_input_tile ext d tileId TileFile_mask flavor = Inl NoSuchFile
            \<and> Delivery_input_tile_NullWhenNotFound ext d tileId TileFile_mask flavor = Inr None)"
  using assms
  by (simp add: Delivery_input_tile_def Delivery_input_tile_NullWhenNotFound_def mask_tile_def
      Driver_input_tile_def Driver_input_tile_NullWhenNotFound_def EmptyMask_def memIStream_def)

text \<open>
  The example tile set stores no mesh for tile \<open>(3, 1, 0)\<close>; the placeholder is the
  PNG of four transparent pixels.
\<close>

theorem mask_debug_placeholder_witness:
  "tileStore (delivery_driver example_delivery) \<lparr> lod = 3, x = 1, y = 0 \<rparr> TileFile_mesh = None
   \<and> Delivery_input_tile example_ext example_delivery \<lparr> lod = 3, x = 1, y = 0 \<rparr> TileFile_mask debug
       = Inr (Some \<lparr> contentType = OfTileFile TileFile_mask, body = ''PNG....''
                   , name = ''ts/t.f'', stat_lastModified = - 1 \<rparr>)
   \<and> Delivery_input_tile_NullWhenNotFound example_ext example_delivery
         \<lparr> lod = 3, x = 1, y = 0 \<rparr> TileFile_mask debug
       = Inr (Some \<lparr> contentType = OfTileFile TileFile_mask, body = ''PNG....''
                   , name = ''ts/t.f'', stat_lastModified = - 1 \<rparr>)
   \<and> regular \<noteq> debug
   \<and> Delivery_input_tile example_ext example_delivery \<lparr> lod = 3, x = 1, y = 0 \<rparr> TileFile_mask regular
       = Inl NoSuchFile
   \<and> Delivery_input_tile_NullWhenNotFound example_ext example_delivery
         \<lparr> lod = 3, x = 1, y = 0 \<rparr> TileFile_mask regular
       = Inr None"
proof -
  have missing:
    "tileStore (delivery_driver example_delivery) \<lparr> lod = 3, x = 1, y = 0 \<rparr> TileFile_mesh = None"
    by (simp add: example_delivery_def example_driver_def)
  have placeholder:
    "png_serialize example_ext (emptyDebugMask example_ext) 9 = ''PNG....''"
    by (simp add: example_ext_def)
  have named:
    "filename example_ext (root (delivery_driver example_delivery))
       \<lparr> lod = 3, x = 1, y = 0 \<rparr> TileFile_mask = ''ts/t.f''"
    by (simp add: filename_def example_ext_def example_delivery_def example_driver_def)
  from mask_debug_placeholder [OF missing, of example_ext regular] missing
  show ?thesis
    by (simp add: placeholder named)
qed

subsection \<open>The served config\<close>

text \<open>
  Claim C9.  Let the driver hold a config that parses to the properties \<open>props\<close>,
  and let the config that is written for \<open>props\<close> without driver options parse back
  to what was written.  Then the config stream that delivery returns, with or
  without \<^verbatim>\<open>NullWhenNotFound\<close>, parses to \<open>props\<close> with the driver options emptied:
  the reference frame, the credits and every further field are those of \<open>props\<close>.
\<close>

theorem config_filtered:
  assumes "fileStore (delivery_driver d) File_config = Some rw"
    and "loadConfig ext (body rw) (name rw) = Inr props"
    and "loadConfig ext (saveConfig ext (props \<lparr> driverOptions := None \<rparr>)) (name rw)
           = Inr (props \<lparr> driverOptions := None \<rparr>)"
  shows "\<exists>s props'.
           Delivery_input ext d File_config = Inr (Some s)
         \<and> Delivery_input_NullWhenNotFound ext d File_config = Inr (Some s)
         \<and> loadConfig ext (body s) (name s) = Inr props'
         \<and> props' = props \<lparr> driverOptions := None \<rparr>
         \<and> driverOptions props' = None
         \<and> referenceFrame props' = referenceFrame props
         \<and> prop_credits props' = prop_credits props
         \<and> FullTileSetProperties.more props' = FullTileSetProperties.more props"
  using assms
  by (simp add: Delivery_input_def Delivery_input_NullWhenNotFound_def Driver_input_def
      Driver_input_NullWhenNotFound_def filterConfig_def)

text \<open>
  The example config carries driver options; the served one does not, and names
  the same reference frame.
\<close>

theorem config_filtered_witness:
  "fileStore (delivery_driver example_delivery) File_config = Some example_config
   \<and> loadConfig example_ext (body example_config) (name example_config) = Inr example_properties
   \<and> loadConfig example_ext
        (saveConfig example_ext (example_properties \<lparr> driverOptions := None \<rparr>))
        (name example_config)
       = Inr (example_properties \<lparr> driverOptions := None \<rparr>)
   \<and> (\<exists>s. Delivery_input example_ext example_delivery File_config = Inr (Some s)
          \<and> body s = ''-melown2015''
          \<and> loadConfig example_ext (body s) (name s)
              = Inr \<lparr> referenceFrame = ''melown2015'', prop_credits = {|1, 2|}
                    , driverOptions = None \<rparr>)"
proof -
  have stored: "fileStore (delivery_driver example_delivery) File_config = Some example_config"
    by (simp add: example_delivery_def example_driver_def)
  have parsed:
    "loadConfig example_ext (body example_config) (name example_config) = Inr example_properties"
    by (simp add: example_ext_def example_config_def example_properties_def)
  have roundtrip:
    "loadConfig example_ext
        (saveConfig example_ext (example_properties \<lparr> driverOptions := None \<rparr>))
        (name example_config)
       = Inr (example_properties \<lparr> driverOptions := None \<rparr>)"
    by (simp add: example_ext_def example_properties_def)
  from config_filtered [OF stored parsed roundtrip]
  obtain s where served: "Delivery_input example_ext example_delivery File_config = Inr (Some s)"
    and reparsed: "loadConfig example_ext (body s) (name s)
                     = Inr (example_properties \<lparr> driverOptions := None \<rparr>)"
    by blast
  from served stored parsed have "body s = ''-melown2015''"
    by (auto simp add: Delivery_input_def Driver_input_def filterConfig_def
        example_ext_def example_properties_def)
  with served reparsed stored parsed roundtrip show ?thesis
    by (simp add: example_properties_def)
qed


section \<open>Properties of node information\<close>

subsection \<open>Compatibility\<close>

text \<open>
  Claim C10.  Two node informations are compatible exactly when their subtrees
  point to the same root node object.  For the root node informations of two
  reference frames this is the case exactly when the frames' root nodes are one
  object.  So, in a store where every frame has a root node of its own, the node
  informations built from two reference frame objects are incompatible, whatever
  the contents of the frames and their nodes.
\<close>

theorem compatible_iff_same_root_object:
  "(compatible ni1 ni2 \<longleftrightarrow> root_ptr (subtree ni1) = root_ptr (subtree ni2))
   \<and> (frames st f1 = Some rf1 \<and> frames st f2 = Some rf2
        \<and> NodeInfo_root st f1 = Some a \<and> NodeInfo_root st f2 = Some b
      \<longrightarrow> (compatible a b \<longleftrightarrow> frame_root rf1 = frame_root rf2)
        \<and> ((\<forall>g1 g2 r1 r2. frames st g1 = Some r1 \<and> frames st g2 = Some r2 \<and> g1 \<noteq> g2
                 \<longrightarrow> frame_root r1 \<noteq> frame_root r2)
             \<and> f1 \<noteq> f2 \<longrightarrow> \<not> compatible a b))"
proof -
  have pointers: "compatible ni1 ni2 \<longleftrightarrow> root_ptr (subtree ni1) = root_ptr (subtree ni2)"
    for ni1 ni2 :: "'a NodeInfo"
    by (simp add: compatible_def RFTreeSubtree_eq_def)
  have roots: "compatible a b \<longleftrightarrow> frame_root rf1 = frame_root rf2"
    if "frames st f1 = Some rf1" and "frames st f2 = Some rf2"
      and "NodeInfo_root st f1 = Some a" and "NodeInfo_root st f2 = Some b"
    using that
    by (auto simp add: compatible_def RFTreeSubtree_eq_def NodeInfo_root_def split: option.splits)
  show ?thesis
    using pointers roots by blast
qed

text \<open>
  The two frames of the example have the same identifier and root nodes with the
  same contents: the node informations built from them hold equal nodes, and are
  not compatible; each is compatible with itself.
\<close>

theorem compatible_iff_same_root_object_witness:
  "\<exists>a b. frames example_store 1 = Some \<lparr> frame_id = ''melown2015'', frame_root = 10 \<rparr>
        \<and> frames example_store 2 = Some \<lparr> frame_id = ''melown2015'', frame_root = 20 \<rparr>
        \<and> NodeInfo_root example_store 1 = Some a \<and> NodeInfo_root example_store 2 = Some b
        \<and> (\<forall>g1 g2 r1 r2. frames example_store g1 = Some r1 \<and> frames example_store g2 = Some r2
               \<and> g1 \<noteq> g2 \<longrightarrow> frame_root r1 \<noteq> frame_root r2)
        \<and> nodes example_store 10 = nodes example_store 20
        \<and> node a = node b
        \<and> \<not> compatible a b \<and> compatible a a"
proof -
  have f1: "frames example_store 1 = Some \<lparr> frame_id = ''melown2015'', frame_root = 10 \<rparr>"
    and f2: "frames example_store 2 = Some \<lparr> frame_id = ''melown2015'', frame_root = 20 \<rparr>"
    by (simp_all add: example_store_def)
  obtain a b where a: "NodeInfo_root example_store 1 = Some a"
    and b: "NodeInfo_root example_store 2 = Some b"
    by (simp add: NodeInfo_root_def example_store_def)
  from a b have same: "node a = node b"
    by (auto simp add: NodeInfo_root_def example_store_def)
  have stored: "nodes example_store 10 = nodes example_store 20"
    by (simp add: example_store_def)
  have own: "\<forall>g1 g2 r1 r2. frames example_store g1 = Some r1 \<and> frames example_store g2 = Some r2
               \<and> g1 \<noteq> g2 \<longrightarrow> frame_root r1 \<noteq> frame_root r2"
    by (auto simp add: example_store_def split: if_splits)
  note two = compatible_iff_same_root_object
         [of a b example_store 1 "\<lparr> frame_id = ''melown2015'', frame_root = 10 \<rparr>"
             2 "\<lparr> frame_id = ''melown2015'', frame_root = 20 \<rparr>" a b]
  note one = compatible_iff_same_root_object
         [of a a example_store 1 "\<lparr> frame_id = ''melown2015'', frame_root = 10 \<rparr>"
             1 "\<lparr> frame_id = ''melown2015'', frame_root = 10 \<rparr>" a a]
  have distinct: "(1 :: nat) \<noteq> 2"
    by simp
  from two [THEN conjunct2, THEN mp, OF conjI [OF f1 conjI [OF f2 conjI [OF a b]]],
            THEN conjunct2, THEN mp, OF conjI [OF own distinct]]
  have apart: "\<not> compatible a b" .
  from one [THEN conjunct2, THEN mp, OF conjI [OF f1 conjI [OF f1 conjI [OF a a]]],
            THEN conjunct1]
  have "compatible a a"
    by simp
  with apart show ?thesis
    using f1 f2 a b own same stored by blast
qed

subsection \<open>Validity\<close>

lemma separated_iff_fully_outside:
  assumes "proper_box v" and "proper_box e"
  shows "separated v e \<longleftrightarrow> fully_outside v e"
proof
  assume "separated v e"
  then show "fully_outside v e"
    by (auto simp add: separated_def fully_outside_def in_box_def)
next
  assume out: "fully_outside v e"
  show "separated v e"
  proof (rule ccontr)
    assume "\<not> separated v e"
    with assms have "in_box e (max (fst (ll e)) (fst (ll v)), max (snd (ll e)) (snd (ll v)))"
      and "in_box v (max (fst (ll e)) (fst (ll v)), max (snd (ll e)) (snd (ll v)))"
      by (auto simp add: separated_def in_box_def proper_box_def)
    with out show False
      by (simp add: fully_outside_def)
  qed
qed

lemma contained_iff_fully_inside:
  assumes "proper_box e"
  shows "contained v e \<longleftrightarrow> fully_inside v e"
proof
  assume "contained v e"
  then show "fully_inside v e"
    by (auto simp add: contained_def fully_inside_def in_box_def)
next
  assume ins: "fully_inside v e"
  from assms have "in_box e (ll e)" and "in_box e (ur e)"
    by (simp_all add: in_box_def proper_box_def)
  with ins have "in_box v (ll e)" and "in_box v (ur e)"
    unfolding fully_inside_def by blast+
  then show "contained v e"
    by (simp add: contained_def in_box_def)
qed

lemma straddles_iff: "straddles v e \<longleftrightarrow> \<not> fully_outside v e \<and> \<not> fully_inside v e"
  by (auto simp add: straddles_def fully_outside_def fully_inside_def)

lemma not_outside_and_inside:
  assumes "proper_box e"
  shows "\<not> (fully_outside v e \<and> fully_inside v e)"
proof -
  from assms have "in_box e (ll e)"
    by (simp add: in_box_def proper_box_def)
  then show ?thesis
    unfolding fully_outside_def fully_inside_def by blast
qed

text \<open>
  Claim C7.  For a valid area and a node whose extents are proper boxes, exactly one
  of three cases holds, and the node information computed for the node records
  it: a node fully outside the valid bounds is invalid (and not partial), a node
  straddling their boundary is valid and partial, a node fully inside is valid
  and not partial.  A partial node is always valid.
\<close>

theorem node_validity_matches_geometry:
  assumes "proper_box v" and "proper_box (extents n)"
  shows "(fully_outside v (extents n) \<longrightarrow>
            \<not> NodeInfo_valid (NodeInfo_node fa st v n) \<and> \<not> NodeInfo_partial (NodeInfo_node fa st v n))
       \<and> (straddles v (extents n) \<longrightarrow>
            NodeInfo_valid (NodeInfo_node fa st v n) \<and> NodeInfo_partial (NodeInfo_node fa st v n))
       \<and> (fully_inside v (extents n) \<longrightarrow>
            NodeInfo_valid (NodeInfo_node fa st v n) \<and> \<not> NodeInfo_partial (NodeInfo_node fa st v n))
       \<and> (fully_outside v (extents n) \<or> straddles v (extents n) \<or> fully_inside v (extents n))
       \<and> \<not> (fully_outside v (extents n) \<and> straddles v (extents n))
       \<and> \<not> (fully_outside v (extents n) \<and> fully_inside v (extents n))
       \<and> \<not> (straddles v (extents n) \<and> fully_inside v (extents n))
       \<and> (NodeInfo_partial (NodeInfo_node fa st v n) \<longrightarrow> NodeInfo_valid (NodeInfo_node fa st v n))"
proof -
  note geo = separated_iff_fully_outside [OF assms] contained_iff_fully_inside [OF assms(2), of v]
  have excl: "\<not> (fully_outside v (extents n) \<and> fully_inside v (extents n))"
    by (rule not_outside_and_inside [OF assms(2)])
  have ni: "NodeInfo_valid (NodeInfo_node fa st v n) \<longleftrightarrow> \<not> fully_outside v (extents n)"
    "NodeInfo_partial (NodeInfo_node fa st v n) \<longleftrightarrow> straddles v (extents n)"
    using excl
    by (auto simp add: NodeInfo_valid_def NodeInfo_partial_def NodeInfo_node_def
        RFTreeSubtree_valid_def Let_def geo straddles_iff)
  from excl show ?thesis
    unfolding ni by (auto simp add: straddles_iff)
qed

text \<open>
  With the valid area \<open>[0, 10] x [0, 10]\<close>, the node on \<open>[5, 15] x [5, 15]\<close> straddles
  the boundary and is partial, and the node on \<open>[20, 30] x [5, 15]\<close> lies outside
  and is invalid.
\<close>

theorem node_validity_matches_geometry_witness:
  "proper_box example_valid_area
   \<and> proper_box (extents (example_node 5 5)) \<and> proper_box (extents (example_node 20 5))
   \<and> straddles example_valid_area (extents (example_node 5 5))
   \<and> NodeInfo_valid (NodeInfo_node 1 \<lparr> root_ptr = 10 \<rparr> example_valid_area (example_node 5 5))
   \<and> NodeInfo_partial (NodeInfo_node 1 \<lparr> root_ptr = 10 \<rparr> example_valid_area (example_node 5 5))
   \<and> fully_outside example_valid_area (extents (example_node 20 5))
   \<and> \<not> NodeInfo_valid (NodeInfo_node 1 \<lparr> root_ptr = 10 \<rparr> example_valid_area (example_node 20 5))
   \<and> \<not> NodeInfo_partial (NodeInfo_node 1 \<lparr> root_ptr = 10 \<rparr> example_valid_area (example_node 20 5))"
proof -
  have area: "proper_box example_valid_area"
    by (simp add: proper_box_def example_valid_area_def)
  have box1: "proper_box (extents (example_node 5 5))"
    and box2: "proper_box (extents (example_node 20 5))"
    by (simp_all add: proper_box_def example_node_def)
  have "in_box (extents (example_node 5 5)) (5, 5)"
    and "in_box example_valid_area (5, 5)"
    and "in_box (extents (example_node 5 5)) (15, 15)"
    and "\<not> in_box example_valid_area (15, 15)"
    by (simp_all add: in_box_def example_node_def example_valid_area_def)
  then have across: "straddles example_valid_area (extents (example_node 5 5))"
    unfolding straddles_def by blast
  have away: "fully_outside example_valid_area (extents (example_node 20 5))"
    by (auto simp add: fully_outside_def in_box_def example_node_def example_valid_area_def)
  from node_validity_matches_geometry [OF area box1, of 1 "\<lparr> root_ptr = 10 \<rparr>"] across
       node_validity_matches_geometry [OF area box2, of 1 "\<lparr> root_ptr = 10 \<rparr>"] away
       area box1 box2
  show ?thesis
    by blast
qed


section \<open>Properties of the encoder\<close>

subsection \<open>The height map accumulator\<close>

lemma float_less_trans: "float_less a b \<Longrightarrow> float_less b c \<Longrightarrow> float_less a c"
  by (cases a; cases b; cases c) auto

lemma float_less_irrefl: "\<not> float_less a a"
  by (cases a) auto

lemma least_height_append:
  "least_height v (zs @ zs') = least_height (least_height v zs) zs'"
  by (induction zs arbitrary: v) simp_all

lemma least_height_below: "least_height v zs = v \<or> float_less (least_height v zs) v"
proof (induction zs arbitrary: v)
  case Nil
  then show ?case by simp
next
  case (Cons z zs)
  from Cons [of "if float_less z v then z else v"] show ?case
    by (auto intro: float_less_trans)
qed

lemma least_height_member: "least_height v zs \<in> set (v # zs)"
proof (induction zs arbitrary: v)
  case Nil
  then show ?case by simp
next
  case (Cons z zs)
  from Cons [of "if float_less z v then z else v"] show ?case
    by (auto split: if_splits)
qed

lemma least_height_least: "c \<in> set (v # zs) \<Longrightarrow> \<not> float_less c (least_height v zs)"
proof (induction zs arbitrary: v)
  case Nil
  then show ?case by (simp add: float_less_irrefl)
next
  case (Cons z zs)
  let ?v = "if float_less z v then z else v"
  from least_height_below [of ?v zs]
  have low: "least_height ?v zs = ?v \<or> float_less (least_height ?v zs) ?v" .
  show ?case
  proof (cases "c \<in> set (?v # zs)")
    case True
    with Cons.IH [of ?v] show ?thesis by simp
  next
    case False
    with Cons.prems have c: "c = v \<or> c = z"
      by (auto split: if_splits)
    show ?thesis
    proof
      assume less: "float_less c (least_height v (z # zs))"
      then have less': "float_less c (least_height ?v zs)" by simp
      from low less' have "float_less c ?v"
        by (auto intro: float_less_trans)
      with c False show False
        by (auto split: if_splits simp add: float_less_irrefl dest: float_less_trans)
    qed
  qed
qed

text \<open>
  Floats other than NaN are totally ordered, so among values that are numbers
  ``none is less'' says that the value is the minimum.
\<close>

lemma float_less_total: "a \<noteq> NaN \<Longrightarrow> b \<noteq> NaN \<Longrightarrow> float_less a b \<or> a = b \<or> float_less b a"
  by (cases a; cases b) auto

lemma least_height_minimum:
  assumes "NaN \<notin> set (v # zs)" and "c \<in> set (v # zs)"
  shows "least_height v zs = c \<or> float_less (least_height v zs) c"
proof -
  from assms(1) least_height_member [of v zs] have "least_height v zs \<noteq> NaN"
    by metis
  moreover from assms have "c \<noteq> NaN"
    by metis
  ultimately show ?thesis
    using float_less_total [of "least_height v zs" c] least_height_least [OF assms(2)]
    by blast
qed

text \<open>One mesh: the pixel afterwards is the least of the pixel before and the heights.\<close>

lemma fold_pixels:
  "fold (\<lambda>(px, py, pz) hm. if float_less pz (hm (py, px)) then hm ((py, px) := pz) else hm) pixels hm p
     = least_height (hm p)
         (map (\<lambda>(px, py, pz). pz) (filter (\<lambda>(px, py, pz). (py, px) = p) pixels))"
  by (induction pixels arbitrary: hm) (auto split: prod.splits)

lemma fold_pixel_lists: "fold (\<lambda>a s. fold f (g a) s) as s = fold f (concat (map g as)) s"
  by (induction as arbitrary: s) simp_all

lemma rasterizeMesh_pixel:
  "rasterizeMesh ext mesh trafo rasterSize
       (\<lambda>px py pz hm. if float_less pz (hm (py, px)) then hm ((py, px) := pz) else hm) hm p
     = least_height (hm p)
         (map (\<lambda>(px, py, pz). pz)
            (filter (\<lambda>(px, py, pz). (py, px) = p)
               (concat (map (facePixels ext trafo rasterSize mesh) (facets mesh)))))"
proof -
  have "rasterizeMesh ext mesh trafo rasterSize
       (\<lambda>px py pz hm. if float_less pz (hm (py, px)) then hm ((py, px) := pz) else hm) hm
     = fold (\<lambda>(px, py, pz) hm. if float_less pz (hm (py, px)) then hm ((py, px) := pz) else hm)
         (concat (map (facePixels ext trafo rasterSize mesh) (facets mesh))) hm"
    by (simp add: rasterizeMesh_def fold_pixel_lists)
  then show ?thesis
    by (simp only: fold_pixels)
qed

lemma generateHeightMap_tileSize [simp]:
  "tileSize (generateHeightMap ext hma tileId mesh ex) = tileSize hma"
  by (simp add: generateHeightMap_def Accumulator_tile_def split: option.splits)

lemma generateHeightMap_pixel:
  "pixel (generateHeightMap ext hma tileId mesh ex) tileId p
     = least_height (pixel hma tileId p) (heights_on ext (tileSize hma) (mesh, ex) p)"
  by (simp add: pixel_def generateHeightMap_def Accumulator_tile_def heights_on_def
      rasterizeMesh_pixel split: option.splits)

lemma generateHeightMaps_tileSize [simp]:
  "tileSize (generateHeightMaps ext hma tileId meshes) = tileSize hma"
  unfolding generateHeightMaps_def
  by (induction meshes arbitrary: hma) (auto split: prod.splits)

lemma generateHeightMaps_pixel:
  "pixel (generateHeightMaps ext hma tileId meshes) tileId p
     = least_height (pixel hma tileId p)
         (concat (map (\<lambda>me. heights_on ext (tileSize hma) me p) meshes))"
proof (induction meshes arbitrary: hma)
  case Nil
  then show ?case by (simp add: generateHeightMaps_def)
next
  case (Cons me meshes)
  obtain mesh ex where me: "me = (mesh, ex)" by (cases me)
  have "generateHeightMaps ext hma tileId (me # meshes)
          = generateHeightMaps ext (generateHeightMap ext hma tileId mesh ex) tileId meshes"
    by (simp add: generateHeightMaps_def me)
  with Cons [of "generateHeightMap ext hma tileId mesh ex"] show ?case
    by (simp add: generateHeightMap_pixel least_height_append me)
qed

text \<open>
  Claim C8.  A pixel of a tile that the accumulator has not allocated yet reads as
  plus infinity.  After any sequence of meshes has been rasterised into a tile,
  every pixel holds the minimum of its previous value and the heights rasterised
  onto it: it is one of these values and none of them is less.  A pixel onto which
  nothing was rasterised keeps its value, plus infinity in a fresh tile.
\<close>

theorem height_map_keeps_minimum:
  "(tiles hma tileId = None \<longrightarrow> pixel hma tileId p = PosInf)
   \<and> pixel (generateHeightMaps ext hma tileId meshes) tileId p
       = least_height (pixel hma tileId p)
           (concat (map (\<lambda>me. heights_on ext (tileSize hma) me p) meshes))
   \<and> pixel (generateHeightMaps ext hma tileId meshes) tileId p
       \<in> set (pixel hma tileId p # concat (map (\<lambda>me. heights_on ext (tileSize hma) me p) meshes))
   \<and> (\<forall>c \<in> set (pixel hma tileId p # concat (map (\<lambda>me. heights_on ext (tileSize hma) me p) meshes)).
         \<not> float_less c (pixel (generateHeightMaps ext hma tileId meshes) tileId p))
   \<and> (concat (map (\<lambda>me. heights_on ext (tileSize hma) me p) meshes) = [] \<longrightarrow>
         pixel (generateHeightMaps ext hma tileId meshes) tileId p = pixel hma tileId p)
   \<and> (tiles hma tileId = None
        \<and> concat (map (\<lambda>me. heights_on ext (tileSize hma) me p) meshes) = [] \<longrightarrow>
         pixel (generateHeightMaps ext hma tileId meshes) tileId p = PosInf)"
proof -
  let ?v = "pixel hma tileId p"
  let ?zs = "concat (map (\<lambda>me. heights_on ext (tileSize hma) me p) meshes)"
  have fresh: "tiles hma tileId = None \<longrightarrow> ?v = PosInf"
    by (simp add: pixel_def Accumulator_tile_def)
  have after: "pixel (generateHeightMaps ext hma tileId meshes) tileId p = least_height ?v ?zs"
    by (rule generateHeightMaps_pixel)
  have member: "least_height ?v ?zs \<in> set (?v # ?zs)"
    by (rule least_height_member)
  have least: "\<forall>c \<in> set (?v # ?zs). \<not> float_less c (least_height ?v ?zs)"
    using least_height_least by blast
  have kept: "?zs = [] \<longrightarrow> least_height ?v ?zs = ?v"
    by (rule impI) (simp only: least_height.simps)
  from fresh kept
  have untouched: "tiles hma tileId = None \<and> ?zs = [] \<longrightarrow> least_height ?v ?zs = PosInf"
    by (intro impI) (elim conjE, simp only: least_height.simps)
  show ?thesis
    unfolding after
    by (intro conjI fresh refl member least kept untouched)
qed


text \<open>
  In the example the mesh puts the heights 5 and 3 on the pixel in row 1 and
  column 1 of a fresh tile and nothing on the pixel in row 0 and column 0.
\<close>

theorem height_map_keeps_minimum_witness:
  "tiles example_hma \<lparr> lod = 2, x = 0, y = 0 \<rparr> = None
   \<and> pixel example_hma \<lparr> lod = 2, x = 0, y = 0 \<rparr> (1, 1) = PosInf
   \<and> heights_on example_encoder_env (tileSize example_hma)
         (example_mesh, extents example_root) (1, 1) = [Finite 5, Finite 3]
   \<and> pixel (generateHeightMaps example_encoder_env example_hma \<lparr> lod = 2, x = 0, y = 0 \<rparr>
               [(example_mesh, extents example_root)]) \<lparr> lod = 2, x = 0, y = 0 \<rparr> (1, 1)
       = Finite 3
   \<and> heights_on example_encoder_env (tileSize example_hma)
         (example_mesh, extents example_root) (0, 0) = []
   \<and> pixel (generateHeightMaps example_encoder_env example_hma \<lparr> lod = 2, x = 0, y = 0 \<rparr>
               [(example_mesh, extents example_root)]) \<lparr> lod = 2, x = 0, y = 0 \<rparr> (0, 0)
       = PosInf"
proof -
  have fresh: "tiles example_hma \<lparr> lod = 2, x = 0, y = 0 \<rparr> = None"
    by (simp add: example_hma_def)
  have on11: "heights_on example_encoder_env (tileSize example_hma)
         (example_mesh, extents example_root) (1, 1) = [Finite 5, Finite 3]"
    by (simp add: heights_on_def example_encoder_env_def example_mesh_def)
  have on00: "heights_on example_encoder_env (tileSize example_hma)
         (example_mesh, extents example_root) (0, 0) = []"
    by (simp add: heights_on_def example_encoder_env_def example_mesh_def)
  from height_map_keeps_minimum
         [of example_hma "\<lparr> lod = 2, x = 0, y = 0 \<rparr>" "(1, 1)" example_encoder_env
             "[(example_mesh, extents example_root)]"] fresh
  have "pixel example_hma \<lparr> lod = 2, x = 0, y = 0 \<rparr> (1, 1) = PosInf"
    and "pixel (generateHeightMaps example_encoder_env example_hma \<lparr> lod = 2, x = 0, y = 0 \<rparr>
               [(example_mesh, extents example_root)]) \<lparr> lod = 2, x = 0, y = 0 \<rparr> (1, 1)
       = Finite 3"
    by (simp_all add: on11)
  moreover
  from height_map_keeps_minimum
         [of example_hma "\<lparr> lod = 2, x = 0, y = 0 \<rparr>" "(0, 0)" example_encoder_env
             "[(example_mesh, extents example_root)]"] fresh
  have "pixel (generateHeightMaps example_encoder_env example_hma \<lparr> lod = 2, x = 0, y = 0 \<rparr>
               [(example_mesh, extents example_root)]) \<lparr> lod = 2, x = 0, y = 0 \<rparr> (0, 0)
       = PosInf"
    by (simp add: on00)
  ultimately show ?thesis
    using fresh on11 on00 by blast
qed

subsection \<open>Generation and traversal\<close>


text \<open>The subtree of a tile is the tile and the subtrees of its children.\<close>

lemma div_pow_Suc: "(a :: int) div 2 ^ Suc k = a div 2 ^ k div 2"
proof -
  have "a div (2 ^ k * 2) = a div 2 ^ k div 2"
    by (rule zdiv_zmult2_eq) simp
  then show ?thesis
    by (simp only: power_Suc2)
qed

lemma half_cases: "(q :: int) div 2 = r \<Longrightarrow> q = 2 * r \<or> q = 2 * r + 1"
  by presburger

lemma below_refl: "below t t"
  by (simp add: below_def)

lemma below_child:
  assumes "c \<in> set (children t)" and "below c d"
  shows "below t d"
proof -
  from assms(1) have c: "lod c = Suc (lod t)" "x c div 2 = x t" "y c div 2 = y t"
    by (auto simp add: children_def)
  from assms(2) have le: "Suc (lod t) \<le> lod d"
    and xs: "x d div 2 ^ (lod d - Suc (lod t)) = x c"
    and ys: "y d div 2 ^ (lod d - Suc (lod t)) = y c"
    by (simp_all add: below_def c(1))
  from le have k: "lod d - lod t = Suc (lod d - Suc (lod t))"
    by simp
  have "x d div 2 ^ (lod d - lod t) = x d div 2 ^ (lod d - Suc (lod t)) div 2"
    and "y d div 2 ^ (lod d - lod t) = y d div 2 ^ (lod d - Suc (lod t)) div 2"
    unfolding k by (simp_all only: div_pow_Suc)
  with xs ys c le show ?thesis
    by (simp add: below_def)
qed

lemma below_cases:
  assumes "below t d" and "d \<noteq> t"
  shows "\<exists>c \<in> set (children t). below c d"
proof -
  from assms have lt: "lod t < lod d"
    by (cases "lod t = lod d") (auto simp add: below_def)
  then have k: "lod d - lod t = Suc (lod d - Suc (lod t))"
    by simp
  let ?qx = "x d div 2 ^ (lod d - Suc (lod t))"
  let ?qy = "y d div 2 ^ (lod d - Suc (lod t))"
  from assms(1) have "?qx div 2 = x t" and "?qy div 2 = y t"
    unfolding below_def k by (simp_all only: div_pow_Suc)
  then have "(?qx = 2 * x t \<or> ?qx = 2 * x t + 1) \<and> (?qy = 2 * y t \<or> ?qy = 2 * y t + 1)"
    by (simp only: half_cases)
  moreover have "below \<lparr> lod = Suc (lod t), x = ?qx, y = ?qy \<rparr> d"
    using lt by (simp add: below_def)
  ultimately show ?thesis
    by (auto simp add: children_def)
qed

lemma below_iff: "below t d \<longleftrightarrow> d = t \<or> (\<exists>c \<in> set (children t). below c d)"
  using below_refl below_child below_cases by blast














section \<open>Properties of pasting\<close>

lemma TileSet_get_setTile:
  "TileSet_get (TileSet_setTile ts k v) t = (if t = k then Some v else TileSet_get ts t)"
proof -
  have "map_of (filter (\<lambda>(k', v'). k' \<noteq> k) ts) t = (if t = k then None else map_of ts t)"
    by (induction ts) auto
  then show ?thesis
    by (simp add: TileSet_get_def TileSet_setTile_def)
qed

lemma fold_setTile_get:
  "TileSet_get
     (fold (\<lambda>tileId d. case TileSet_get src tileId of
                          None \<Rightarrow> d
                        | Some tile \<Rightarrow> TileSet_setTile d tileId tile) ks dst) t
   = (if t \<in> set ks \<and> TileSet_get src t \<noteq> None then TileSet_get src t else TileSet_get dst t)"
  by (induction ks arbitrary: dst) (auto simp add: TileSet_get_setTile split: option.splits)

lemma TileSet_get_paste:
  "TileSet_get (TileSet_paste dst src None) t
     = (case TileSet_get src t of Some tile \<Rightarrow> Some tile | None \<Rightarrow> TileSet_get dst t)"
proof -
  have "TileSet_get src t \<noteq> None \<Longrightarrow> t \<in> set (map fst src)"
    by (auto simp add: TileSet_get_def dest: map_of_SomeD intro: rev_image_eqI)
  then show ?thesis
    by (auto simp add: TileSet_paste_def fold_setTile_get split: option.splits)
qed

text \<open>
  Claim C2.  After the tile sets \<open>A\<close> and \<open>B\<close> have been pasted into \<open>dst\<close> in that
  order, \<open>dst\<close> holds at every tile of \<open>A\<close> or \<open>B\<close> the tile of \<open>B\<close> when \<open>B\<close> holds
  one, and the tile of \<open>A\<close> otherwise: the last write wins.  The operation has no
  result in which it could warn of a conflict.
\<close>

theorem paste_last_wins:
  assumes "TileSet_exists A t \<or> TileSet_exists B t"
  shows "TileSet_get (pasteTileSets dst [A, B]) t
           = (if TileSet_exists B t then TileSet_get B t else TileSet_get A t)"
  using assms
  by (auto simp add: pasteTileSets_def TileSet_get_paste TileSet_exists_def split: option.splits)

text \<open>
  Both example tile sets hold tile \<open>(3, 4, 4)\<close> and only the first holds tile
  \<open>(3, 2, 1)\<close>, which the destination held before.
\<close>

theorem paste_last_wins_witness:
  "TileSet_exists example_tileset_A \<lparr> lod = 3, x = 4, y = 4 \<rparr>
   \<and> TileSet_exists example_tileset_B \<lparr> lod = 3, x = 4, y = 4 \<rparr>
   \<and> TileSet_get (pasteTileSets example_tileset_dst [example_tileset_A, example_tileset_B])
         \<lparr> lod = 3, x = 4, y = 4 \<rparr> = Some ''B-344''
   \<and> TileSet_exists example_tileset_A \<lparr> lod = 3, x = 2, y = 1 \<rparr>
   \<and> \<not> TileSet_exists example_tileset_B \<lparr> lod = 3, x = 2, y = 1 \<rparr>
   \<and> TileSet_get (pasteTileSets example_tileset_dst [example_tileset_A, example_tileset_B])
         \<lparr> lod = 3, x = 2, y = 1 \<rparr> = Some ''A-321''"
proof -
  have a1: "TileSet_exists example_tileset_A \<lparr> lod = 3, x = 4, y = 4 \<rparr>"
    and b1: "TileSet_exists example_tileset_B \<lparr> lod = 3, x = 4, y = 4 \<rparr>"
    and a2: "TileSet_exists example_tileset_A \<lparr> lod = 3, x = 2, y = 1 \<rparr>"
    and b2: "\<not> TileSet_exists example_tileset_B \<lparr> lod = 3, x = 2, y = 1 \<rparr>"
    by (simp_all add: TileSet_exists_def TileSet_get_def example_tileset_A_def
        example_tileset_B_def)
  from paste_last_wins [of example_tileset_A "\<lparr> lod = 3, x = 4, y = 4 \<rparr>" example_tileset_B
         example_tileset_dst] a1 b1
  have both: "TileSet_get (pasteTileSets example_tileset_dst [example_tileset_A, example_tileset_B])
         \<lparr> lod = 3, x = 4, y = 4 \<rparr> = Some ''B-344''"
    by (simp add: TileSet_get_def example_tileset_B_def)
  from paste_last_wins [of example_tileset_A "\<lparr> lod = 3, x = 2, y = 1 \<rparr>" example_tileset_B
         example_tileset_dst] a2 b2
  have first: "TileSet_get (pasteTileSets example_tileset_dst [example_tileset_A, example_tileset_B])
         \<lparr> lod = 3, x = 2, y = 1 \<rparr> = Some ''A-321''"
    by (simp add: TileSet_get_def example_tileset_A_def)
  from a1 b1 both a2 b2 first show ?thesis
    by (intro conjI)
qed


end
